theory Spec2Isabelle
  imports Complex_Main "HOL-Library.Log_Nat"
begin

section \<open>JavaScript numbers\<close>

text \<open>
  Every number of the program is an IEEE 754 double. A finite double is represented by
  the rational it denotes; the sign of zero is not represented (every zero that reaches
  a division below is the \<open>+0\<close> of an array length or of a count).
  \<open>fl\<close> rounds a positive rational to the nearest double, ties to the even
  mantissa: 53 bits of mantissa, subnormals below \<open>2 powi (-1022)\<close>.
\<close>

datatype jsnum = NaN | PosInf | NegInf | Fin rat

definition ilog2 :: "rat \<Rightarrow> int" where
  "ilog2 x = (if 1 \<le> x then int (floorlog 2 (nat \<lfloor>x\<rfloor>)) - 1
              else - int (floorlog 2 (nat (\<lceil>1 / x\<rceil> - 1))))"

definition roundHalfEven :: "rat \<Rightarrow> int" where
  "roundHalfEven y =
     (let f = \<lfloor>y\<rfloor>; d = y - of_int f
      in if d < 1 / 2 then f else if 1 / 2 < d then f + 1 else if even f then f else f + 1)"

definition fl :: "rat \<Rightarrow> rat" where
  "fl x = (let e = max (ilog2 x - 52) (- 1074)
           in of_int (roundHalfEven (x / 2 powi e)) * 2 powi e)"

definition to_double :: "rat \<Rightarrow> jsnum" where
  "to_double x =
     (if x = 0 then Fin 0
      else let y = fl \<bar>x\<bar>
           in if 2 ^ 1024 \<le> y then (if 0 < x then PosInf else NegInf)
              else Fin (if 0 < x then y else - y))"

text \<open>The operators \<open>/\<close>, \<open>*\<close> and \<open>>=\<close> on numbers.\<close>

fun js_div :: "jsnum \<Rightarrow> jsnum \<Rightarrow> jsnum" where
  "js_div (Fin a) (Fin b) =
     (if b = 0 then (if a = 0 then NaN else if 0 < a then PosInf else NegInf)
      else to_double (a / b))"
| "js_div (Fin a) PosInf = Fin 0"
| "js_div (Fin a) NegInf = Fin 0"
| "js_div PosInf (Fin b) = (if 0 \<le> b then PosInf else NegInf)"
| "js_div NegInf (Fin b) = (if 0 \<le> b then NegInf else PosInf)"
| "js_div _ _ = NaN"

fun js_mul :: "jsnum \<Rightarrow> jsnum \<Rightarrow> jsnum" where
  "js_mul (Fin a) (Fin b) = to_double (a * b)"
| "js_mul (Fin a) PosInf = (if a = 0 then NaN else if 0 < a then PosInf else NegInf)"
| "js_mul (Fin a) NegInf = (if a = 0 then NaN else if 0 < a then NegInf else PosInf)"
| "js_mul PosInf (Fin b) = (if b = 0 then NaN else if 0 < b then PosInf else NegInf)"
| "js_mul NegInf (Fin b) = (if b = 0 then NaN else if 0 < b then NegInf else PosInf)"
| "js_mul PosInf PosInf = PosInf"
| "js_mul PosInf NegInf = NegInf"
| "js_mul NegInf PosInf = NegInf"
| "js_mul NegInf NegInf = PosInf"
| "js_mul _ _ = NaN"

fun js_ge :: "jsnum \<Rightarrow> jsnum \<Rightarrow> bool" where
  "js_ge (Fin a) (Fin b) = (b \<le> a)"
| "js_ge (Fin a) NegInf = True"
| "js_ge PosInf (Fin b) = True"
| "js_ge PosInf PosInf = True"
| "js_ge PosInf NegInf = True"
| "js_ge NegInf NegInf = True"
| "js_ge _ _ = False"

text \<open>
  \<open>Math.round\<close> rounds to the nearest integer, a tie towards \<open>+\<infinity>\<close>;
  \<open>Math.ceil\<close> and \<open>Math.floor\<close> are exact. A double of magnitude
  \<open>2 ^ 52\<close> or more is an integer already, so each result is a double.
\<close>

fun Math_round :: "jsnum \<Rightarrow> jsnum" where
  "Math_round (Fin x) = Fin (of_int \<lfloor>x + 1 / 2\<rfloor>)"
| "Math_round v = v"

fun Math_ceil :: "jsnum \<Rightarrow> jsnum" where
  "Math_ceil (Fin x) = Fin (of_int \<lceil>x\<rceil>)"
| "Math_ceil v = v"

fun Math_floor :: "jsnum \<Rightarrow> jsnum" where
  "Math_floor (Fin x) = Fin (of_int \<lfloor>x\<rfloor>)"
| "Math_floor v = v"

text \<open>
  An array length, a count of questions and a score are integers below \<open>2 ^ 32\<close>,
  which are doubles exactly.
\<close>

definition num :: "nat \<Rightarrow> jsnum" where
  "num n = Fin (of_nat n)"

text \<open>
  The percentage the specification asks for, in exact arithmetic: \<open>100 * a / n\<close>
  rounded to the nearest integer, a tie upwards. It is compared with what the code
  computes in doubles.
\<close>

definition roundHalfUp_percent :: "nat \<Rightarrow> nat \<Rightarrow> int" where
  "roundHalfUp_percent a n = \<lfloor>(100 * of_nat a / of_nat n :: rat) + 1 / 2\<rfloor>"

section \<open>Question and its two variants\<close>

text \<open>
  Ids are numbers (\<open>0\<close> is the falsy one), texts and answers are strings (the empty
  string is the falsy one), \<open>null\<close> is \<open>None\<close>. The \<open>options\<close> argument of a
  constructor is \<open>None\<close> when it is a value that \<open>Array.isArray\<close> rejects.
\<close>

datatype error =
    InvalidQuestionParameters
  | CorrectAnswerNotInOptions
  | AnswerNotInOptions
  | OptionCountOutOfRange
  | TrueFalseAnswerFormat
  | QuestionNotFound
  | NotAllAnswered
  | AlreadySubmitted
  | StorageError

record question =
  qid :: int
  qtext :: string
  options :: "string list"
  correctAnswer :: string
  qtype :: string
  selectedAnswer :: "string option"

definition validateInput :: "int \<Rightarrow> string \<Rightarrow> string list option \<Rightarrow> string \<Rightarrow> error + unit" where
  "validateInput i t os c =
     (case os of
        None \<Rightarrow> Inl InvalidQuestionParameters
      | Some opts \<Rightarrow>
          if i = 0 \<or> t = [] \<or> c = [] then Inl InvalidQuestionParameters
          else if c \<notin> set opts then Inl CorrectAnswerNotInOptions
          else Inr ())"

definition Question :: "int \<Rightarrow> string \<Rightarrow> string list option \<Rightarrow> string \<Rightarrow> string \<Rightarrow> error + question" where
  "Question i t os c ty =
     (case validateInput i t os c of
        Inl e \<Rightarrow> Inl e
      | Inr _ \<Rightarrow>
          Inr \<lparr>qid = i, qtext = t, options = (case os of Some opts \<Rightarrow> opts | None \<Rightarrow> []),
               correctAnswer = c, qtype = ty, selectedAnswer = None\<rparr>)"

definition validateMultipleChoiceOptions :: "question \<Rightarrow> error + unit" where
  "validateMultipleChoiceOptions q =
     (if length (options q) < 2 \<or> 6 < length (options q) then Inl OptionCountOutOfRange
      else Inr ())"

definition MultipleChoiceQuestion :: "int \<Rightarrow> string \<Rightarrow> string list option \<Rightarrow> string \<Rightarrow> error + question" where
  "MultipleChoiceQuestion i t os c =
     (case Question i t os c ''multiple-choice'' of
        Inl e \<Rightarrow> Inl e
      | Inr q \<Rightarrow> (case validateMultipleChoiceOptions q of Inl e \<Rightarrow> Inl e | Inr _ \<Rightarrow> Inr q))"

definition TrueFalseQuestion :: "int \<Rightarrow> string \<Rightarrow> string \<Rightarrow> error + question" where
  "TrueFalseQuestion i t c =
     (if c \<notin> set [''True'', ''False''] then Inl TrueFalseAnswerFormat
      else Question i t (Some [''True'', ''False'']) c ''true-false'')"

definition isCorrect :: "question \<Rightarrow> bool" where
  "isCorrect q = (selectedAnswer q = Some (correctAnswer q))"

definition Question_setAnswer :: "string \<Rightarrow> question \<Rightarrow> error + question" where
  "Question_setAnswer a q =
     (if a \<in> set (options q) then Inr (q\<lparr>selectedAnswer := Some a\<rparr>)
      else Inl AnswerNotInOptions)"

definition resetAnswer :: "question \<Rightarrow> question" where
  "resetAnswer q = q\<lparr>selectedAnswer := None\<rparr>"

section \<open>The key-value store\<close>

text \<open>
  \<open>localStorage\<close> maps a key to a text. The texts that matter are the empty text, a
  text that \<open>JSON.parse\<close> rejects, and the JSON of a persisted record. The store may be
  out of reach (every access throws), or refuse writes (\<open>setItem\<close> throws).
\<close>

type_synonym saved_answer = "int \<times> string option"

record persisted =
  answers :: "saved_answer list"
  p_startTime :: "int option"
  p_isCompleted :: bool
  p_attempts :: nat
  version :: string

datatype item = EmptyText | Unparsable | Parsed persisted

datatype storage = Unavailable | Available "string \<rightharpoonup> item" bool

fun getItem :: "storage \<Rightarrow> string \<Rightarrow> error + item option" where
  "getItem Unavailable k = Inl StorageError"
| "getItem (Available m w) k = Inr (m k)"

fun setItem :: "storage \<Rightarrow> string \<Rightarrow> item \<Rightarrow> error + storage" where
  "setItem Unavailable k v = Inl StorageError"
| "setItem (Available m w) k v = (if w then Inr (Available (m(k \<mapsto> v)) w) else Inl StorageError)"

fun removeItem :: "storage \<Rightarrow> string \<Rightarrow> error + storage" where
  "removeItem Unavailable k = Inl StorageError"
| "removeItem (Available m w) k = Inr (Available (m(k := None)) w)"

text \<open>What a reader of the store finds under a key.\<close>

fun stored :: "storage \<Rightarrow> string \<Rightarrow> item option" where
  "stored Unavailable k = None"
| "stored (Available m w) k = m k"

section \<open>Quiz\<close>

record config =
  passThreshold :: jsnum
  saveProgress :: bool
  storageKey :: string
  showCorrectAnswers :: bool

record quiz =
  questions :: "question list"
  isCompleted :: bool
  score :: nat
  startTime :: "int option"
  endTime :: "int option"
  attempts :: nat
  config :: config

text \<open>
  The constructor's \<open>options\<close> argument: an absent field is \<open>None\<close>. A threshold of
  \<open>0\<close> or \<open>NaN\<close> and an empty key are falsy and give the default; \<open>showCorrectAnswers\<close>
  is \<open>options.showCorrectAnswers || true\<close>, which is always true. Questions are taken
  in the order given (\<open>shuffleQuestions\<close> is off by default).
\<close>

record quiz_options =
  opt_passThreshold :: "jsnum option"
  opt_saveProgress :: "bool option"
  opt_storageKey :: "string option"

definition Quiz :: "question list \<Rightarrow> quiz_options \<Rightarrow> quiz" where
  "Quiz qs opts =
     \<lparr>questions = qs, isCompleted = False, score = 0, startTime = None, endTime = None,
      attempts = 0,
      config = \<lparr>passThreshold =
                  (case opt_passThreshold opts of
                     None \<Rightarrow> to_double (7 / 10)
                   | Some t \<Rightarrow> if t = NaN \<or> t = Fin 0 then to_double (7 / 10) else t),
                saveProgress = (opt_saveProgress opts \<noteq> Some False),
                storageKey =
                  (case opt_storageKey opts of
                     None \<Rightarrow> ''quizState''
                   | Some k \<Rightarrow> if k = [] then ''quizState'' else k),
                showCorrectAnswers = True\<rparr>\<rparr>"

definition getQuestion :: "quiz \<Rightarrow> int \<Rightarrow> question option" where
  "getQuestion q i = find (\<lambda>x. qid x = i) (questions q)"

text \<open>
  \<open>find\<close> returns the first question with the id, and the caller mutates that object:
  in the list, the first question with the id is replaced. The list stands for an array
  whose entries are objects of their own, as every array built by
  \<open>QuizQuestions.createQuestionInstances\<close>, \<open>QuizApp._createFallbackQuestions\<close> and
  \<open>Quiz.fromExportedData\<close> is; an array that lists one object twice, where the mutation
  would show in both entries, is not represented.
\<close>

fun replaceFirst :: "int \<Rightarrow> question \<Rightarrow> question list \<Rightarrow> question list" where
  "replaceFirst i y [] = []"
| "replaceFirst i y (x # xs) = (if qid x = i then y # xs else x # replaceFirst i y xs)"

definition clearStorage :: "quiz \<Rightarrow> storage \<Rightarrow> storage" where
  "clearStorage q st =
     (case removeItem st (storageKey (config q)) of Inl e \<Rightarrow> st | Inr st' \<Rightarrow> st')"

definition quizState :: "quiz \<Rightarrow> persisted" where
  "quizState q =
     \<lparr>answers = map (\<lambda>x. (qid x, selectedAnswer x)) (questions q),
      p_startTime = startTime q,
      p_isCompleted = isCompleted q,
      p_attempts = attempts q,
      version = ''1.0''\<rparr>"

definition saveToStorage :: "quiz \<Rightarrow> storage \<Rightarrow> storage" where
  "saveToStorage q st =
     (if \<not> saveProgress (config q) \<or> isCompleted q then st
      else case setItem st (storageKey (config q)) (Parsed (quizState q)) of
             Inl e \<Rightarrow> st
           | Inr st' \<Rightarrow> st')"

text \<open>
  \<open>Quiz.setAnswer\<close>: the body of the \<open>try\<close> block, then the \<open>catch\<close>. Both throws of
  the body come before its first assignment, so the state at the \<open>catch\<close> is the state
  at entry. \<open>now\<close> is what \<open>new Date()\<close> reads.
\<close>

definition setAnswer_try :: "int \<Rightarrow> int \<Rightarrow> string \<Rightarrow> quiz \<times> storage \<Rightarrow> error + quiz \<times> storage" where
  "setAnswer_try now i a s =
     (case s of (q, st) \<Rightarrow>
        (case getQuestion q i of
           None \<Rightarrow> Inl QuestionNotFound
         | Some x \<Rightarrow>
             (case Question_setAnswer a x of
                Inl e \<Rightarrow> Inl e
              | Inr x' \<Rightarrow>
                  let q1 = q\<lparr>questions := replaceFirst i x' (questions q)\<rparr>;
                      q2 = (if startTime q1 = None then q1\<lparr>startTime := Some now\<rparr> else q1);
                      st' = (if saveProgress (config q2) \<and> \<not> isCompleted q2
                             then saveToStorage q2 st else st)
                  in Inr (q2, st'))))"

definition setAnswer :: "int \<Rightarrow> int \<Rightarrow> string \<Rightarrow> quiz \<times> storage \<Rightarrow> bool \<times> quiz \<times> storage" where
  "setAnswer now i a s =
     (case setAnswer_try now i a s of
        Inl e \<Rightarrow> (False, s)
      | Inr s' \<Rightarrow> (True, s'))"

definition resetAllAnswers :: "quiz \<times> storage \<Rightarrow> quiz \<times> storage" where
  "resetAllAnswers s =
     (case s of (q, st) \<Rightarrow>
        (q\<lparr>questions := map resetAnswer (questions q), isCompleted := False, score := 0,
           startTime := None, endTime := None\<rparr>,
         clearStorage q st))"

definition calculateScore :: "quiz \<Rightarrow> nat \<times> quiz" where
  "calculateScore q =
     (let correctAnswers = foldl (\<lambda>n x. if isCorrect x then n + 1 else n) 0 (questions q)
      in (correctAnswers, q\<lparr>score := correctAnswers\<rparr>))"

definition isPassed :: "quiz \<Rightarrow> bool" where
  "isPassed q =
     js_ge (js_div (num (score q)) (num (length (questions q)))) (passThreshold (config q))"

definition areAllQuestionsAnswered :: "quiz \<Rightarrow> bool" where
  "areAllQuestionsAnswered q = list_all (\<lambda>x. selectedAnswer x \<noteq> None) (questions q)"

definition getAnsweredCount :: "quiz \<Rightarrow> nat" where
  "getAnsweredCount q = length (filter (\<lambda>x. selectedAnswer x \<noteq> None) (questions q))"

definition getProgressPercentage :: "quiz \<Rightarrow> jsnum" where
  "getProgressPercentage q =
     Math_round (js_mul (js_div (num (getAnsweredCount q)) (num (length (questions q)))) (num 100))"

text \<open>The getter \<open>duration\<close>, in seconds; a \<open>Date\<close> is its count of milliseconds.\<close>

definition duration :: "int \<Rightarrow> quiz \<Rightarrow> jsnum" where
  "duration now q =
     (case startTime q of
        None \<Rightarrow> Fin 0
      | Some s \<Rightarrow>
          let e = (case endTime q of Some t \<Rightarrow> t | None \<Rightarrow> now)
          in Math_floor (js_div (to_double (of_int (e - s))) (num 1000)))"

record question_result =
  qr_id :: int
  qr_text :: string
  qr_selectedAnswer :: "string option"
  qr_correctAnswer :: string
  qr_isCorrect :: bool
  qr_type :: string

definition getQuestionResults :: "quiz \<Rightarrow> question_result list" where
  "getQuestionResults q =
     map (\<lambda>x. \<lparr>qr_id = qid x, qr_text = qtext x, qr_selectedAnswer = selectedAnswer x,
               qr_correctAnswer = correctAnswer x, qr_isCorrect = isCorrect x,
               qr_type = qtype x\<rparr>) (questions q)"

record results =
  r_score :: nat
  r_total :: nat
  r_percentage :: jsnum
  r_passed :: bool
  r_passingScore :: jsnum
  r_duration :: jsnum
  r_attempts :: nat
  r_completedAt :: int
  r_questions :: "question_result list option"

definition generateResults :: "int \<Rightarrow> quiz \<Rightarrow> results" where
  "generateResults now q =
     (let percentage =
            Math_round (js_mul (js_div (num (score q)) (num (length (questions q)))) (num 100));
          passed = isPassed q
      in \<lparr>r_score = score q,
          r_total = length (questions q),
          r_percentage = percentage,
          r_passed = passed,
          r_passingScore = Math_ceil (js_mul (num (length (questions q))) (passThreshold (config q))),
          r_duration = duration now q,
          r_attempts = attempts q,
          r_completedAt = now,
          r_questions = (if showCorrectAnswers (config q) then Some (getQuestionResults q) else None)\<rparr>)"

text \<open>
  \<open>submitQuiz\<close> throws to its caller before it assigns anything: \<open>Inl\<close> leaves the quiz
  and the store as they were. The call runs to its end without a pause, and \<open>now\<close> is
  what each \<open>new Date()\<close> in it reads.
\<close>

definition submitQuiz :: "int \<Rightarrow> quiz \<times> storage \<Rightarrow> error + results \<times> quiz \<times> storage" where
  "submitQuiz now s =
     (case s of (q, st) \<Rightarrow>
        if \<not> areAllQuestionsAnswered q then Inl NotAllAnswered
        else if isCompleted q then Inl AlreadySubmitted
        else let q1 = snd (calculateScore q);
                 q2 = q1\<lparr>isCompleted := True, endTime := Some now, attempts := attempts q1 + 1\<rparr>;
                 st' = clearStorage q2 st
             in Inr (generateResults now q2, q2, st'))"

text \<open>
  \<open>loadFromStorage\<close>. The loop over the saved answers may throw after it has restored
  some of them: \<open>restoreAnswers\<close> returns the error, if any, with the questions as the
  loop left them.
\<close>

fun restoreAnswers :: "saved_answer list \<Rightarrow> question list \<Rightarrow> error option \<times> question list" where
  "restoreAnswers [] qs = (None, qs)"
| "restoreAnswers (sa # rest) qs =
     (case (find (\<lambda>x. qid x = fst sa) qs, snd sa) of
        (Some x, Some a) \<Rightarrow>
          if a \<noteq> [] then
            (case Question_setAnswer a x of
               Inl e \<Rightarrow> (Some e, qs)
             | Inr x' \<Rightarrow> restoreAnswers rest (replaceFirst (fst sa) x' qs))
          else restoreAnswers rest qs
      | _ \<Rightarrow> restoreAnswers rest qs)"

definition loadFromStorage :: "quiz \<times> storage \<Rightarrow> bool \<times> quiz \<times> storage" where
  "loadFromStorage s =
     (case s of (q, st) \<Rightarrow>
        if \<not> saveProgress (config q) then (False, q, st)
        else
          (case getItem st (storageKey (config q)) of
             Inl e \<Rightarrow> (False, q, clearStorage q st)
           | Inr None \<Rightarrow> (False, q, st)
           | Inr (Some EmptyText) \<Rightarrow> (False, q, st)
           | Inr (Some Unparsable) \<Rightarrow> (False, q, clearStorage q st)
           | Inr (Some (Parsed state)) \<Rightarrow>
               if p_isCompleted state then (False, q, clearStorage q st)
               else
                 (case restoreAnswers (answers state) (questions q) of
                    (Some e, qs) \<Rightarrow> (False, q\<lparr>questions := qs\<rparr>, clearStorage q st)
                  | (None, qs) \<Rightarrow>
                      let q1 = q\<lparr>questions := qs\<rparr>;
                          q2 = (case p_startTime state of
                                  Some t \<Rightarrow> q1\<lparr>startTime := Some t\<rparr>
                                | None \<Rightarrow> q1);
                          q3 = q2\<lparr>attempts := p_attempts state\<rparr>
                      in (True, q3, st))))"

text \<open>
  What the loop of \<open>loadFromStorage\<close> makes of one question, given the saved answers: the
  answer saved under the question's id, when there is one and it is truthy.
\<close>

definition restored :: "saved_answer list \<Rightarrow> question \<Rightarrow> question" where
  "restored sas x =
     (case map_of sas (qid x) of
        Some (Some a) \<Rightarrow> if a \<noteq> [] then x\<lparr>selectedAnswer := Some a\<rparr> else x
      | _ \<Rightarrow> x)"

text \<open>
  \<open>getStatistics\<close>. The per-type table is a plain object, read with \<open>stats[type]\<close>: the
  names that every object inherits from \<open>Object.prototype\<close> are found there with a truthy
  value, so a question of such a type gets no entry of its own (the counters are then
  bumped on the inherited value, and nothing throws). The table is a map: the order in
  which its keys are listed is not represented.
\<close>

record type_stats =
  ts_total :: nat
  ts_answered :: nat
  ts_correct :: nat

definition inheritedKeys :: "string list" where
  "inheritedKeys =
     [''constructor'', ''__defineGetter__'', ''__defineSetter__'', ''hasOwnProperty'',
      ''__lookupGetter__'', ''__lookupSetter__'', ''isPrototypeOf'', ''propertyIsEnumerable'',
      ''toString'', ''valueOf'', ''__proto__'', ''toLocaleString'']"

definition bumpType :: "question \<Rightarrow> (string \<rightharpoonup> type_stats) \<Rightarrow> (string \<rightharpoonup> type_stats)" where
  "bumpType x stats =
     (if qtype x \<in> set inheritedKeys then stats
      else
        let s0 = (case stats (qtype x) of
                    None \<Rightarrow> \<lparr>ts_total = 0, ts_answered = 0, ts_correct = 0\<rparr>
                  | Some s \<Rightarrow> s);
            s1 = s0\<lparr>ts_total := ts_total s0 + 1\<rparr>;
            s2 = (if selectedAnswer x \<noteq> None then s1\<lparr>ts_answered := ts_answered s1 + 1\<rparr> else s1);
            s3 = (if selectedAnswer x \<noteq> None \<and> isCorrect x
                  then s2\<lparr>ts_correct := ts_correct s2 + 1\<rparr> else s2)
        in stats(qtype x \<mapsto> s3))"

definition getQuestionTypeStats :: "quiz \<Rightarrow> (string \<rightharpoonup> type_stats)" where
  "getQuestionTypeStats q = foldl (\<lambda>stats x. bumpType x stats) Map.empty (questions q)"

record statistics =
  s_totalQuestions :: nat
  s_answeredQuestions :: nat
  s_correctAnswers :: nat
  s_progress :: jsnum
  s_isCompleted :: bool
  s_passed :: "bool option"
  s_duration :: jsnum
  s_averageTimePerQuestion :: jsnum
  s_questionTypes :: "string \<rightharpoonup> type_stats"
  s_attempts :: nat

definition getStatistics :: "int \<Rightarrow> quiz \<Rightarrow> statistics" where
  "getStatistics now q =
     (let answeredCount = getAnsweredCount q;
          correctCount = (if isCompleted q then score q else 0)
      in \<lparr>s_totalQuestions = length (questions q),
          s_answeredQuestions = answeredCount,
          s_correctAnswers = correctCount,
          s_progress = getProgressPercentage q,
          s_isCompleted = isCompleted q,
          s_passed = (if isCompleted q then Some (isPassed q) else None),
          s_duration = duration now q,
          s_averageTimePerQuestion =
            (if 0 < answeredCount then js_div (duration now q) (num answeredCount) else Fin 0),
          s_questionTypes = getQuestionTypeStats q,
          s_attempts = attempts q\<rparr>)"

section \<open>Sample data\<close>

text \<open>
  The first two questions of \<open>QuizApp._createFallbackQuestions\<close>, the quiz the
  application builds over them with its default options, and an empty store.
\<close>

definition capitalQuestion :: question where
  "capitalQuestion =
     \<lparr>qid = 1, qtext = ''What is the capital of France?'',
      options = [''London'', ''Berlin'', ''Paris'', ''Madrid''],
      correctAnswer = ''Paris'', qtype = ''multiple-choice'', selectedAnswer = None\<rparr>"

definition compiledQuestion :: question where
  "compiledQuestion =
     \<lparr>qid = 2, qtext = ''JavaScript is a compiled language.'',
      options = [''True'', ''False''],
      correctAnswer = ''False'', qtype = ''true-false'', selectedAnswer = None\<rparr>"

definition defaultOptions :: quiz_options where
  "defaultOptions = \<lparr>opt_passThreshold = None, opt_saveProgress = None, opt_storageKey = None\<rparr>"

definition sampleQuiz :: quiz where
  "sampleQuiz = Quiz [capitalQuestion, compiledQuestion] defaultOptions"

definition emptyStore :: storage where
  "emptyStore = Available Map.empty True"

text \<open>The sample quiz with both questions answered, the first one rightly.\<close>

definition answeredQuiz :: "quiz \<times> storage" where
  "answeredQuiz =
     snd (setAnswer 2000 2 ''True'' (snd (setAnswer 1000 1 ''Paris'' (sampleQuiz, emptyStore))))"

text \<open>The state after that quiz has been submitted.\<close>

definition submittedQuiz :: "quiz \<times> storage" where
  "submittedQuiz =
     (case submitQuiz 3000 answeredQuiz of Inr (r, s) \<Rightarrow> s | Inl e \<Rightarrow> answeredQuiz)"

text \<open>A store that holds the record of a finished quiz under the sample quiz's key.\<close>

definition staleState :: persisted where
  "staleState =
     \<lparr>answers = [(1, Some ''Paris''), (2, Some ''True'')], p_startTime = Some 500,
      p_isCompleted = True, p_attempts = 3, version = ''1.0''\<rparr>"

definition staleStore :: storage where
  "staleStore = Available [''quizState'' \<mapsto> Parsed staleState] True"

text \<open>
  The sample quiz cut down to its first question, answered and saved; and a quiz over one
  question that has the empty string among its options, with that option chosen.
\<close>

definition capitalOnly :: "quiz \<times> storage" where
  "capitalOnly = snd (setAnswer 1000 1 ''Paris'' (Quiz [capitalQuestion] defaultOptions, emptyStore))"

definition blankQuestion :: question where
  "blankQuestion =
     \<lparr>qid = 1, qtext = ''Pick one'', options = ['''', ''A''], correctAnswer = ''A'',
      qtype = ''multiple-choice'', selectedAnswer = None\<rparr>"

definition blankQuiz :: quiz where
  "blankQuiz = Quiz [blankQuestion] defaultOptions"

definition blankAnswered :: "quiz \<times> storage" where
  "blankAnswered = snd (setAnswer 1000 1 '''' (blankQuiz, emptyStore))"

text \<open>
  A quiz without questions, and a quiz of forty true-or-false questions, all answered, the
  first twenty-three of them rightly. (\<open>Quiz.fromExportedData\<close> builds a quiz over
  questions that are answered already.)
\<close>

definition emptyQuiz :: quiz where
  "emptyQuiz = Quiz [] defaultOptions"

definition trueFalse :: "nat \<Rightarrow> string \<Rightarrow> question" where
  "trueFalse i a =
     \<lparr>qid = int i, qtext = ''JSON stands for JavaScript Object Notation.'',
      options = [''True'', ''False''], correctAnswer = ''True'', qtype = ''true-false'',
      selectedAnswer = Some a\<rparr>"

definition fortyQuiz :: quiz where
  "fortyQuiz =
     Quiz (map (\<lambda>i. trueFalse i ''True'') [1..<24] @ map (\<lambda>i. trueFalse i ''False'') [24..<41])
       defaultOptions"

text \<open>
  The sample quiz as \<open>QuizApp\<close> builds it when its \<open>autoSave\<close> option is off:
  \<open>saveProgress\<close> is false.
\<close>

definition noSaveQuiz :: quiz where
  "noSaveQuiz =
     Quiz [capitalQuestion, compiledQuestion]
       \<lparr>opt_passThreshold = None, opt_saveProgress = Some False, opt_storageKey = None\<rparr>"

section \<open>Facts about the model\<close>

subsection \<open>Counting, lookup and replacement\<close>

lemma foldl_count:
  "foldl (\<lambda>n x. if P x then n + 1 else n) k xs = k + length (filter P xs)"
  by (induction xs arbitrary: k) auto

lemma calculateScore_eq:
  "calculateScore q =
     (length (filter isCorrect (questions q)),
      q\<lparr>score := length (filter isCorrect (questions q))\<rparr>)"
  by (simp add: calculateScore_def foldl_count Let_def)

lemma getAnsweredCount_le: "getAnsweredCount q \<le> length (questions q)"
  by (simp add: getAnsweredCount_def)

lemma stored_clearStorage:
  "stored (clearStorage q st) k = (if k = storageKey (config q) then None else stored st k)"
  by (cases st) (simp_all add: clearStorage_def)

lemma find_qid: "find (\<lambda>x. qid x = i) xs = Some x \<Longrightarrow> qid x = i"
  by (induction xs) (auto split: if_splits)

lemma find_in_set: "find P xs = Some x \<Longrightarrow> x \<in> set xs \<and> P x"
  by (induction xs) (auto split: if_splits)

lemma find_distinct_qid:
  "distinct (map qid ys) \<Longrightarrow> y \<in> set ys \<Longrightarrow> find (\<lambda>z. qid z = qid y) ys = Some y"
  by (induction ys) (auto simp: image_iff)

lemma find_map_qid:
  "(\<And>z. qid (F z) = qid z) \<Longrightarrow>
   find (\<lambda>z. qid z = i) (map F ys) = map_option F (find (\<lambda>z. qid z = i) ys)"
  by (induction ys) auto

lemma find_replaceFirst:
  "find (\<lambda>x. qid x = i) xs = Some x \<Longrightarrow> qid y = i \<Longrightarrow>
   find (\<lambda>x. qid x = i) (replaceFirst i y xs) = Some y"
  by (induction xs) (auto split: if_splits)

lemma find_replaceFirst_other:
  "j \<noteq> i \<Longrightarrow> qid y = i \<Longrightarrow>
   find (\<lambda>x. qid x = j) (replaceFirst i y xs) = find (\<lambda>x. qid x = j) xs"
  by (induction xs) auto

lemma replaceFirst_distinct:
  "distinct (map qid xs) \<Longrightarrow> qid y = i \<Longrightarrow>
   replaceFirst i y xs = map (\<lambda>x. if qid x = i then y else x) xs"
proof (induction xs)
  case Nil
  then show ?case by simp
next
  case (Cons x xs)
  show ?case
  proof (cases "qid x = i")
    case True
    with Cons.prems have "i \<notin> qid ` set xs" by auto
    then have "\<forall>z \<in> set xs. qid z \<noteq> i" by blast
    then have "map (\<lambda>x. if qid x = i then y else x) xs = xs" by (induction xs) auto
    with True show ?thesis by simp
  next
    case False
    with Cons show ?thesis by simp
  qed
qed

lemma setAnswer_completed_eq:
  assumes "isCompleted q" and "getQuestion q i = Some x" and "a \<in> set (options x)"
  shows "setAnswer now i a (q, st) =
     (True,
      (if startTime q = None
       then q\<lparr>questions := replaceFirst i (x\<lparr>selectedAnswer := Some a\<rparr>) (questions q),
              startTime := Some now\<rparr>
       else q\<lparr>questions := replaceFirst i (x\<lparr>selectedAnswer := Some a\<rparr>) (questions q)\<rparr>),
      st)"
  using assms by (simp add: setAnswer_def setAnswer_try_def Question_setAnswer_def Let_def)

lemma getQuestion_replaced:
  assumes "getQuestion q i = Some x"
  shows "getQuestion (q\<lparr>questions := replaceFirst i (x\<lparr>selectedAnswer := s\<rparr>) (questions q)\<rparr>) i
           = Some (x\<lparr>selectedAnswer := s\<rparr>)"
proof -
  from assms(1) have "qid x = i" unfolding getQuestion_def by (rule find_qid)
  with assms show ?thesis by (simp add: getQuestion_def find_replaceFirst)
qed

lemma getQuestion_replaced_other:
  assumes "getQuestion q i = Some x" and "j \<noteq> i"
  shows "getQuestion (q\<lparr>questions := replaceFirst i (x\<lparr>selectedAnswer := s\<rparr>) (questions q)\<rparr>) j
           = getQuestion q j"
proof -
  from assms(1) have "qid x = i" unfolding getQuestion_def by (rule find_qid)
  with assms show ?thesis by (simp add: getQuestion_def find_replaceFirst_other)
qed

subsection \<open>Saving and restoring\<close>

lemma saveToStorage_writes:
  assumes "saveProgress (config q)" and "\<not> isCompleted q"
  shows "saveToStorage q (Available m True)
           = Available (m(storageKey (config q) \<mapsto> Parsed (quizState q))) True"
  using assms by (simp add: saveToStorage_def)

lemma map_of_saved:
  assumes "distinct (map qid xs)" and "x \<in> set xs"
  shows "map_of (map (\<lambda>x. (qid x, selectedAnswer x)) xs) (qid x) = Some (selectedAnswer x)"
proof -
  have "distinct (map fst (map (\<lambda>x. (qid x, selectedAnswer x)) xs))"
    using assms(1) by (simp add: o_def)
  moreover have "(qid x, selectedAnswer x) \<in> set (map (\<lambda>x. (qid x, selectedAnswer x)) xs)"
    using assms(2) by auto
  ultimately show ?thesis by (rule map_of_is_SomeI)
qed

lemma map_of_saved_None:
  "i \<notin> qid ` set xs \<Longrightarrow> map_of (map (\<lambda>x. (qid x, selectedAnswer x)) xs) i = None"
  by (induction xs) auto

lemma qid_restored [simp]: "qid (restored sas x) = qid x"
  by (simp add: restored_def split: option.splits)

text \<open>
  With distinct ids on both sides and saved answers that their questions accept, the loop
  of \<open>loadFromStorage\<close> does not throw, and restores question by question.
\<close>

lemma restoreAnswers_eq:
  assumes "distinct (map fst sas)" and "distinct (map qid qs)"
    and "\<forall>x \<in> set qs. \<forall>a. map_of sas (qid x) = Some (Some a) \<and> a \<noteq> [] \<longrightarrow> a \<in> set (options x)"
  shows "restoreAnswers sas qs = (None, map (restored sas) qs)"
  using assms
proof (induction sas arbitrary: qs)
  case Nil
  then show ?case by (simp add: restored_def)
next
  case (Cons sa rest)
  obtain i s where sa: "sa = (i, s)" by (cases sa)
  from Cons.prems(1) sa have fresh: "map_of rest i = None" and d: "distinct (map fst rest)"
    by (auto simp: map_of_eq_None_iff)
  have keep: "\<forall>x \<in> set qs. \<forall>a. map_of rest (qid x) = Some (Some a) \<and> a \<noteq> [] \<longrightarrow> a \<in> set (options x)"
  proof (intro ballI allI impI)
    fix x a
    assume x: "x \<in> set qs" and h: "map_of rest (qid x) = Some (Some a) \<and> a \<noteq> []"
    with fresh have "qid x \<noteq> i" by auto
    with h sa have "map_of (sa # rest) (qid x) = Some (Some a) \<and> a \<noteq> []" by simp
    with Cons.prems(3) x show "a \<in> set (options x)" by blast
  qed
  show ?case
  proof (cases "\<exists>x a. find (\<lambda>x. qid x = i) qs = Some x \<and> s = Some a \<and> a \<noteq> []")
    case False
    then have step: "restoreAnswers (sa # rest) qs = restoreAnswers rest qs"
      by (auto simp: sa split: option.splits)
    have "restored (sa # rest) x = restored rest x" if "x \<in> set qs" for x
    proof (cases "qid x = i")
      case True
      with that Cons.prems(2) have "find (\<lambda>x. qid x = i) qs = Some x"
        using find_distinct_qid [of qs x] by simp
      with False have "s = None \<or> s = Some []" by (cases s) auto
      with True fresh show ?thesis by (auto simp: restored_def sa)
    next
      case False
      then show ?thesis by (simp add: restored_def sa)
    qed
    then have "map (restored (sa # rest)) qs = map (restored rest) qs" by simp
    with step Cons.IH [OF d Cons.prems(2) keep] show ?thesis by simp
  next
    case True
    then obtain x0 a where f: "find (\<lambda>x. qid x = i) qs = Some x0" and s: "s = Some a" and a: "a \<noteq> []"
      by blast
    from f have x0: "x0 \<in> set qs" "qid x0 = i" using find_in_set [OF f] by auto
    from Cons.prems(3) x0 s a sa have opt: "a \<in> set (options x0)" by auto
    let ?y = "x0\<lparr>selectedAnswer := Some a\<rparr>"
    let ?g = "\<lambda>x. if qid x = i then ?y else x"
    have rf: "replaceFirst i ?y qs = map ?g qs"
      using replaceFirst_distinct [OF Cons.prems(2), of ?y i] x0 by simp
    have step: "restoreAnswers (sa # rest) qs = restoreAnswers rest (map ?g qs)"
      using f s a opt rf by (simp add: sa Question_setAnswer_def)
    have ids: "map qid (map ?g qs) = map qid qs" using x0 by (induction qs) auto
    have d': "distinct (map qid (map ?g qs))" by (simp only: ids Cons.prems(2))
    have keep': "\<forall>x \<in> set (map ?g qs). \<forall>a. map_of rest (qid x) = Some (Some a) \<and> a \<noteq> [] \<longrightarrow> a \<in> set (options x)"
      using keep fresh x0 by auto
    have "restored rest (?g x) = restored (sa # rest) x" if "x \<in> set qs" for x
    proof (cases "qid x = i")
      case True
      with that Cons.prems(2) x0 have "x = x0"
        by (metis distinct_map inj_onD)
      with True fresh s a x0 show ?thesis by (simp add: restored_def sa)
    next
      case False
      then show ?thesis by (simp add: restored_def sa)
    qed
    then have "map (restored rest) (map ?g qs) = map (restored (sa # rest)) qs" by simp
    with step Cons.IH [OF d d' keep'] show ?thesis by simp
  qed
qed

subsection \<open>Rounding to a double\<close>

lemma floorlog2_bounds:
  assumes "0 < n"
  shows "1 \<le> floorlog 2 n" and "2 ^ (floorlog 2 n - 1) \<le> n" and "n < 2 ^ floorlog 2 n"
proof -
  from floorlog_bounds [of n 2] assms
  show b: "2 ^ (floorlog 2 n - 1) \<le> n" and c: "n < 2 ^ floorlog 2 n" by simp_all
  show "1 \<le> floorlog 2 n"
  proof (rule ccontr)
    assume "\<not> 1 \<le> floorlog 2 n"
    then have "floorlog 2 n = 0" by simp
    with c assms show False by simp
  qed
qed

lemma ilog2_bounds:
  assumes "0 < x"
  shows "2 powi (ilog2 x) \<le> x \<and> x < 2 powi (ilog2 x + 1)"
proof (cases "1 \<le> x")
  case True
  define n where "n = nat \<lfloor>x\<rfloor>"
  define k where "k = floorlog 2 n"
  from True have fx: "1 \<le> \<lfloor>x\<rfloor>" by simp
  then have n: "0 < n" and nx: "rat_of_nat n = of_int \<lfloor>x\<rfloor>" by (simp_all add: n_def)
  from floorlog2_bounds [OF n] have k1: "1 \<le> k" and lo: "2 ^ (k - 1) \<le> n" and hi: "n < 2 ^ k"
    by (simp_all add: k_def)
  have il: "ilog2 x = int (k - 1)" using True k1 by (simp add: ilog2_def n_def k_def)
  have "(2::rat) ^ (k - 1) \<le> of_nat n" using lo by (metis of_nat_le_iff of_nat_numeral of_nat_power)
  also have "\<dots> \<le> x" unfolding nx by simp
  finally have a: "2 powi (ilog2 x) \<le> x" by (simp add: il)
  from hi have "n + 1 \<le> 2 ^ k" by simp
  then have "rat_of_nat (n + 1) \<le> 2 ^ k" by (metis of_nat_le_iff of_nat_numeral of_nat_power)
  moreover have "x < rat_of_nat (n + 1)" using nx by simp linarith
  ultimately have "x < 2 ^ k" by simp
  moreover have "ilog2 x + 1 = int k" using il k1 by simp
  ultimately have b: "x < 2 powi (ilog2 x + 1)" by simp
  from a b show ?thesis ..
next
  case False
  define y where "y = 1 / x"
  define n where "n = nat (\<lceil>y\<rceil> - 1)"
  define k where "k = floorlog 2 n"
  from False assms have y1: "1 < y" by (simp add: y_def)
  then have c2: "2 \<le> \<lceil>y\<rceil>" by linarith
  then have n: "0 < n" and ny: "rat_of_nat n = of_int \<lceil>y\<rceil> - 1" by (simp_all add: n_def)
  from floorlog2_bounds [OF n] have k1: "1 \<le> k" and lo: "2 ^ (k - 1) \<le> n" and hi: "n < 2 ^ k"
    by (simp_all add: k_def)
  have il: "ilog2 x = - int k" using False by (simp add: ilog2_def n_def k_def y_def)
  from hi have "n + 1 \<le> 2 ^ k" by simp
  then have "rat_of_nat (n + 1) \<le> 2 ^ k" by (metis of_nat_le_iff of_nat_numeral of_nat_power)
  moreover have "y \<le> rat_of_nat (n + 1)" using ny by simp
  ultimately have "y \<le> 2 ^ k" by simp
  then have "1 / 2 ^ k \<le> x" using assms by (simp add: y_def field_simps)
  then have a: "2 powi (ilog2 x) \<le> x" by (simp add: il power_int_minus field_simps)
  have "(2::rat) ^ (k - 1) \<le> of_nat n" using lo by (metis of_nat_le_iff of_nat_numeral of_nat_power)
  moreover have "rat_of_nat n < y" using ny by simp linarith
  ultimately have "2 ^ (k - 1) < y" by (rule order_le_less_trans)
  then have "x < 1 / 2 ^ (k - 1)" using assms by (simp add: y_def field_simps)
  moreover have "ilog2 x + 1 = - int (k - 1)" using il k1 by simp
  ultimately have b: "x < 2 powi (ilog2 x + 1)" by (simp add: power_int_minus field_simps)
  from a b show ?thesis ..
qed

lemma roundHalfEven_close: "\<bar>of_int (roundHalfEven y) - y\<bar> \<le> 1 / 2"
proof -
  have "of_int \<lfloor>y\<rfloor> \<le> y" "y < of_int \<lfloor>y\<rfloor> + 1" by linarith+
  then show ?thesis by (auto simp: roundHalfEven_def Let_def)
qed

text \<open>
  Rounding a number of the normal range to a double moves it by at most one part in
  \<open>2 ^ 53\<close>.
\<close>

lemma fl_error:
  assumes "2 powi (- 1022) \<le> x"
  shows "\<bar>fl x - x\<bar> \<le> x / 2 ^ 53"
proof -
  have pos: "0 < x" using assms by (smt (verit) zero_less_power_int zero_less_numeral order_less_le_trans)
  from ilog2_bounds [OF pos] have lo: "2 powi (ilog2 x) \<le> x" and hi: "x < 2 powi (ilog2 x + 1)"
    by simp_all
  from assms hi have "(2::rat) powi (- 1022) < 2 powi (ilog2 x + 1)" by simp
  have "- 1022 < ilog2 x + 1"
  proof (rule ccontr)
    assume "\<not> - 1022 < ilog2 x + 1"
    then have "ilog2 x + 1 \<le> - 1022" by simp
    then have "(2::rat) powi (ilog2 x + 1) \<le> 2 powi (- 1022)"
      by (intro power_int_increasing) simp_all
    with \<open>(2::rat) powi (- 1022) < 2 powi (ilog2 x + 1)\<close> show False by simp
  qed
  then have e: "max (ilog2 x - 52) (- 1074) = ilog2 x - 52" by simp
  define e where "e = ilog2 x - 52"
  define p where "p = (2::rat) powi e"
  have p: "0 < p" by (simp add: p_def)
  have fl: "fl x = of_int (roundHalfEven (x / p)) * p"
    by (simp add: fl_def e Let_def e_def p_def)
  have "\<bar>of_int (roundHalfEven (x / p)) - x / p\<bar> \<le> 1 / 2" by (rule roundHalfEven_close)
  then have "\<bar>of_int (roundHalfEven (x / p)) - x / p\<bar> * p \<le> 1 / 2 * p"
    using p by (simp add: mult_right_mono)
  moreover have "\<bar>of_int (roundHalfEven (x / p)) - x / p\<bar> * p = \<bar>fl x - x\<bar>"
  proof -
    have "\<bar>of_int (roundHalfEven (x / p)) - x / p\<bar> * p
        = \<bar>(of_int (roundHalfEven (x / p)) - x / p) * p\<bar>"
      using p by (simp add: abs_mult)
    also have "(of_int (roundHalfEven (x / p)) - x / p) * p = fl x - x"
      using p by (simp add: fl field_simps)
    finally show ?thesis .
  qed
  ultimately have "\<bar>fl x - x\<bar> \<le> p / 2" by simp
  moreover have "p = 2 powi (ilog2 x) / 2 ^ 52"
    by (simp add: p_def e_def power_int_diff)
  ultimately have "\<bar>fl x - x\<bar> \<le> 2 powi (ilog2 x) / 2 ^ 53" by simp
  also have "\<dots> \<le> x / 2 ^ 53" using lo by (simp add: divide_right_mono)
  finally show ?thesis .
qed

lemma to_double_normal:
  assumes lo: "2 powi (- 1022) \<le> x" and hi: "x \<le> 2 ^ 1000"
  shows "to_double x = Fin (fl x)"
proof -
  have pos: "0 < x"
  proof -
    have "(0::rat) < 2 powi (- 1022)" by simp
    with lo show ?thesis by linarith
  qed
  from fl_error [OF lo] have "fl x \<le> x + x / 2 ^ 53" by linarith
  also have "\<dots> \<le> x + x" using pos by (simp add: field_simps)
  also have "\<dots> \<le> 2 ^ 1000 + 2 ^ 1000" using hi by linarith
  also have "\<dots> < (2::rat) ^ 1024" by simp
  finally have "\<not> 2 ^ 1024 \<le> fl x" by simp
  with pos show ?thesis by (simp add: to_double_def Let_def)
qed

lemma percent_close:
  assumes a: "0 < a" and an: "a \<le> n" and n: "n < 2 ^ 32"
  shows "\<exists>y. js_mul (js_div (num a) (num n)) (num 100) = Fin y
           \<and> \<bar>y - 100 * of_nat a / of_nat n\<bar> < 1 / 2 ^ 45"
proof -
  define q :: rat where "q = of_nat a / of_nat n"
  define u :: rat where "u = 1 / 2 ^ 53"
  from a an have npos: "0 < n" by simp
  have q0: "0 < q" using a npos by (simp add: q_def)
  have q1: "q \<le> 1" using an npos by (simp add: q_def)
  have "rat_of_nat n < 2 ^ 32" using n by (metis of_nat_less_iff of_nat_numeral of_nat_power)
  moreover have "1 \<le> rat_of_nat a" using a by simp
  ultimately have qlo: "1 / 2 ^ 32 \<le> q" using npos
    by (simp add: q_def field_simps)
  have n1: "2 powi (- 1022) \<le> q"
  proof -
    have "(2::rat) powi (- 1022) \<le> 1 / 2 ^ 32" by (simp add: power_int_minus field_simps)
    with qlo show ?thesis by linarith
  qed
  have h1: "q \<le> 2 ^ 1000"
  proof -
    have "(1::rat) \<le> 2 ^ 1000" by simp
    with q1 show ?thesis by linarith
  qed
  define v where "v = fl q"
  have d1: "js_div (num a) (num n) = Fin v"
    using npos to_double_normal [OF n1 h1] by (simp add: num_def q_def v_def)
  have e1: "\<bar>v - q\<bar> \<le> q * u" using fl_error [OF n1] by (simp add: v_def u_def)
  have upos: "0 < u" and usmall: "u \<le> 1 / 2" by (simp_all add: u_def)
  have qu: "q * u \<le> q * (1 / 2)" using usmall q0 by (intro mult_left_mono) simp_all
  from e1 qu have vlo: "q / 2 \<le> v" by linarith
  from e1 qu q0 have vhi: "v \<le> 2 * q" by linarith
  define p where "p = v * 100"
  have n2: "2 powi (- 1022) \<le> p"
  proof -
    have "q \<le> p" using vlo q0 by (simp add: p_def)
    with n1 show ?thesis by linarith
  qed
  have h2: "p \<le> 2 ^ 1000"
  proof -
    have "p \<le> 200" using vhi q1 by (simp add: p_def)
    also have "\<dots> \<le> (2::rat) ^ 1000" by simp
    finally show ?thesis .
  qed
  define y where "y = fl p"
  have d2: "js_mul (Fin v) (num 100) = Fin y"
    using to_double_normal [OF n2 h2] by (simp add: num_def p_def y_def)
  have e2: "\<bar>y - p\<bar> \<le> p * u" using fl_error [OF n2] by (simp add: y_def u_def)
  define r where "r = 100 * q"
  have r100: "r \<le> 100" and r0: "0 < r" using q0 q1 by (simp_all add: r_def)
  have "p - r = 100 * (v - q)" by (simp add: p_def r_def algebra_simps)
  then have "\<bar>p - r\<bar> = \<bar>100 * (v - q)\<bar>" by (rule arg_cong)
  also have "\<dots> = \<bar>100\<bar> * \<bar>v - q\<bar>" by (rule abs_mult)
  finally have "\<bar>p - r\<bar> = 100 * \<bar>v - q\<bar>" by simp
  with e1 have e3: "\<bar>p - r\<bar> \<le> r * u" by (simp add: r_def)
  then have "p \<le> r + r * u" by linarith
  then have "p * u \<le> (r + r * u) * u" using upos by (simp add: mult_right_mono)
  with e2 have e4: "\<bar>y - p\<bar> \<le> (r + r * u) * u" by linarith
  have "\<bar>y - r\<bar> \<le> \<bar>y - p\<bar> + \<bar>p - r\<bar>" by linarith
  with e3 e4 have "\<bar>y - r\<bar> \<le> r * (u * (2 + u))" by (simp add: algebra_simps)
  also have "\<dots> \<le> 100 * (u * (2 + u))" using r100 upos by (simp add: mult_right_mono)
  also have "\<dots> < 1 / 2 ^ 45" by (simp add: u_def)
  finally have "\<bar>y - 100 * of_nat a / of_nat n\<bar> < 1 / 2 ^ 45" by (simp add: r_def q_def)
  with d1 d2 show ?thesis by simp
qed

text \<open>
  The percentage as the code computes it, a division and a multiplication in doubles and
  then \<open>Math.round\<close>, is the exact percentage rounded half up, unless the exact percentage
  is a tie.
\<close>

lemma percent_round:
  assumes npos: "0 < n" and an: "a \<le> n" and n: "n < 2 ^ 32"
    and notie: "(200 * a + n) mod (2 * n) \<noteq> 0"
  shows "Math_round (js_mul (js_div (num a) (num n)) (num 100))
           = Fin (of_int (roundHalfUp_percent a n))"
proof (cases "a = 0")
  case True
  with npos show ?thesis
    by (simp add: num_def to_double_def roundHalfUp_percent_def)
next
  case False
  then have a: "0 < a" by simp
  from percent_close [OF a an n] obtain y
    where y: "js_mul (js_div (num a) (num n)) (num 100) = Fin y"
      and close: "\<bar>y - 100 * of_nat a / of_nat n\<bar> < 1 / 2 ^ 45"
    by blast
  define r :: rat where "r = 100 * of_nat a / of_nat n"
  define N where "N = 200 * a + n"
  define D where "D = 2 * n"
  define K where "K = N div D"
  define R where "R = N mod D"
  have Dpos: "0 < D" using npos by (simp add: D_def)
  have R1: "1 \<le> R" using notie by (simp add: R_def N_def D_def)
  have R2: "R + 1 \<le> D" using Dpos by (simp add: R_def Suc_leI)
  have "N = D * K + R" by (simp add: K_def R_def)
  then have "rat_of_nat N = of_nat D * of_nat K + of_nat R"
    by (metis of_nat_add of_nat_mult)
  moreover have "r + 1 / 2 = of_nat N / of_nat D"
    using npos by (simp add: r_def N_def D_def field_simps)
  ultimately have half: "r + 1 / 2 = of_nat K + of_nat R / of_nat D"
    using Dpos by (simp add: field_simps)
  have Dsmall: "rat_of_nat D < 2 ^ 33"
  proof -
    from n have "D < 2 ^ 33" by (simp add: D_def)
    then show ?thesis by (metis of_nat_less_iff of_nat_numeral of_nat_power)
  qed
  have Drat: "0 < rat_of_nat D" using Dpos by simp
  have inv: "1 / 2 ^ 45 < 1 / rat_of_nat D"
  proof -
    have "rat_of_nat D < 2 ^ 45" using Dsmall by (simp add: order_less_trans)
    with Drat show ?thesis by (simp add: field_simps)
  qed
  have lo: "1 / rat_of_nat D \<le> of_nat R / of_nat D"
    using R1 Drat by (simp add: divide_right_mono)
  have "rat_of_nat R + 1 \<le> of_nat D" using R2 by (metis of_nat_1 of_nat_add of_nat_le_iff)
  then have hi: "of_nat R / rat_of_nat D \<le> 1 - 1 / of_nat D"
    using Drat by (simp add: field_simps)
  have wpos: "0 < 1 / rat_of_nat D" using Drat by simp
  have K': "rat_of_int (int K) = of_nat K" by simp
  have fr: "\<lfloor>r + 1 / 2\<rfloor> = int K"
  proof (rule floor_unique)
    show "of_int (int K) \<le> r + 1 / 2" unfolding K' using half lo wpos by linarith
    show "r + 1 / 2 < of_int (int K) + 1" unfolding K' using half hi wpos by linarith
  qed
  from close have c1: "r - 1 / 2 ^ 45 < y" and c2: "y < r + 1 / 2 ^ 45"
    unfolding r_def by linarith+
  have fy: "\<lfloor>y + 1 / 2\<rfloor> = int K"
  proof (rule floor_unique)
    show "of_int (int K) \<le> y + 1 / 2" unfolding K' using c1 half lo inv by linarith
    show "y + 1 / 2 < of_int (int K) + 1" unfolding K' using c2 half hi inv by linarith
  qed
  have "roundHalfUp_percent a n = \<lfloor>r + 1 / 2\<rfloor>"
    by (simp add: roundHalfUp_percent_def r_def)
  with fr fy y show ?thesis by simp
qed

subsection \<open>Evaluating doubles\<close>

lemma floor_numeral_quotient:
  "\<lfloor>(numeral a / numeral b :: rat)\<rfloor> = numeral a div numeral b"
  using floor_divide_of_int_eq [of "numeral a" "numeral b", where ?'a = rat] by simp

lemma floor_one_quotient: "\<lfloor>(1 / numeral b :: rat)\<rfloor> = 1 div numeral b"
  using floor_divide_of_int_eq [of 1 "numeral b", where ?'a = rat] by simp

lemma ceiling_numeral_quotient:
  "\<lceil>(numeral a / numeral b :: rat)\<rceil> = - ((- numeral a) div numeral b)"
  using floor_divide_of_int_eq [of "- numeral a" "numeral b", where ?'a = rat]
  by (simp add: ceiling_def)

lemmas double_eval =
  to_double_def fl_def ilog2_def roundHalfEven_def Let_def num_def
  floor_numeral_quotient floor_one_quotient ceiling_numeral_quotient compute_floorlog
  power_int_minus

lemma default_threshold: "to_double (7 / 10) = Fin (3152519739159347 / 4503599627370496)"
  by (simp add: double_eval)

lemma scoring_examples:
  "Math_round (js_mul (js_div (num 9) (num 12)) (num 100)) = Fin 75"
  "js_ge (js_div (num 9) (num 12)) (to_double (7 / 10))"
  "Math_ceil (js_mul (num 12) (to_double (7 / 10))) = Fin 9"
  "Math_round (js_mul (js_div (num 7) (num 10)) (num 100)) = Fin 70"
  "js_ge (js_div (num 7) (num 10)) (to_double (7 / 10))"
  "Math_ceil (js_mul (num 10) (to_double (7 / 10))) = Fin 7"
  by (simp_all add: double_eval)

lemma tie_rounds_down:
  "Math_round (js_mul (js_div (num 23) (num 40)) (num 100)) = Fin 57"
  "roundHalfUp_percent 23 40 = 58"
  by (simp_all add: double_eval roundHalfUp_percent_def)

subsection \<open>The results of a submission\<close>

text \<open>
  The percentage of a result is the exact percentage rounded half up, unless the exact
  percentage is a tie; and the two examples of the specification, at the default threshold.
\<close>

lemma generateResults_percentage:
  assumes "questions q \<noteq> []" and "length (questions q) < 2 ^ 32"
    and "score q \<le> length (questions q)"
    and "(200 * score q + length (questions q)) mod (2 * length (questions q)) \<noteq> 0"
  shows "r_percentage (generateResults now q)
           = Fin (of_int (roundHalfUp_percent (score q) (length (questions q))))"
proof -
  from assms(1) have "0 < length (questions q)" by simp
  from percent_round [OF this assms(3) assms(2) assms(4)] show ?thesis
    by (simp add: generateResults_def Let_def)
qed

lemma generateResults_examples:
  assumes "passThreshold (config q) = to_double (7 / 10)"
  shows "length (questions q) = 12 \<Longrightarrow> score q = 9 \<Longrightarrow>
           r_percentage (generateResults now q) = Fin 75
         \<and> r_passed (generateResults now q)
         \<and> r_passingScore (generateResults now q) = Fin 9"
    and "length (questions q) = 10 \<Longrightarrow> score q = 7 \<Longrightarrow>
           r_percentage (generateResults now q) = Fin 70
         \<and> r_passed (generateResults now q)"
  using assms by (simp_all add: generateResults_def isPassed_def Let_def scoring_examples)

subsection \<open>The sample data\<close>

lemma answeredQuiz_eq:
  "answeredQuiz =
    (\<lparr>questions = [capitalQuestion\<lparr>selectedAnswer := Some ''Paris''\<rparr>,
                   compiledQuestion\<lparr>selectedAnswer := Some ''True''\<rparr>],
      isCompleted = False, score = 0, startTime = Some 1000, endTime = None, attempts = 0,
      config = config sampleQuiz\<rparr>,
     Available [''quizState'' \<mapsto> Parsed \<lparr>answers = [(1, Some ''Paris''), (2, Some ''True'')],
        p_startTime = Some 1000, p_isCompleted = False, p_attempts = 0, version = ''1.0''\<rparr>] True)"
  by (simp add: answeredQuiz_def setAnswer_def setAnswer_try_def sampleQuiz_def Quiz_def
      defaultOptions_def emptyStore_def getQuestion_def capitalQuestion_def compiledQuestion_def
      Question_setAnswer_def saveToStorage_def quizState_def Let_def)

lemma submittedQuiz_eq:
  "submittedQuiz =
    (\<lparr>questions = [capitalQuestion\<lparr>selectedAnswer := Some ''Paris''\<rparr>,
                   compiledQuestion\<lparr>selectedAnswer := Some ''True''\<rparr>],
      isCompleted = True, score = 1, startTime = Some 1000, endTime = Some 3000, attempts = 1,
      config = config sampleQuiz\<rparr>,
     Available Map.empty True)"
  by (simp add: submittedQuiz_def answeredQuiz_eq submitQuiz_def areAllQuestionsAnswered_def
      calculateScore_eq isCorrect_def capitalQuestion_def compiledQuestion_def Let_def
      clearStorage_def sampleQuiz_def Quiz_def defaultOptions_def)

lemma submit_answeredQuiz:
  "submitQuiz 3000 answeredQuiz = Inr (generateResults 3000 (fst submittedQuiz), submittedQuiz)"
  by (simp add: submittedQuiz_eq answeredQuiz_eq submitQuiz_def areAllQuestionsAnswered_def
      calculateScore_eq isCorrect_def capitalQuestion_def compiledQuestion_def Let_def
      clearStorage_def sampleQuiz_def Quiz_def defaultOptions_def)

lemma capitalOnly_eq:
  "capitalOnly =
    (\<lparr>questions = [capitalQuestion\<lparr>selectedAnswer := Some ''Paris''\<rparr>],
      isCompleted = False, score = 0, startTime = Some 1000, endTime = None, attempts = 0,
      config = config sampleQuiz\<rparr>,
     Available [''quizState'' \<mapsto> Parsed \<lparr>answers = [(1, Some ''Paris'')],
        p_startTime = Some 1000, p_isCompleted = False, p_attempts = 0, version = ''1.0''\<rparr>] True)"
  by (simp add: capitalOnly_def setAnswer_def setAnswer_try_def sampleQuiz_def Quiz_def
      defaultOptions_def emptyStore_def getQuestion_def capitalQuestion_def
      Question_setAnswer_def saveToStorage_def quizState_def Let_def)

lemma fortyQuiz_facts:
  "length (questions fortyQuiz) = 40"
  "areAllQuestionsAnswered fortyQuiz"
  "\<not> isCompleted fortyQuiz"
  "length (filter isCorrect (questions fortyQuiz)) = 23"
  "passThreshold (config fortyQuiz) = to_double (7 / 10)"
  "showCorrectAnswers (config fortyQuiz)"
  by (simp_all add: fortyQuiz_def Quiz_def defaultOptions_def areAllQuestionsAnswered_def
      trueFalse_def isCorrect_def list_all_iff filter_map o_def)

subsection \<open>The round trip of saved answers\<close>

text \<open>
  Take a quiz that is not completed, saves its progress, has questions with distinct ids
  and each selected answer among its question's options, and a store that accepts the
  write. Save it, then load the store into a quiz with the same key whose questions have
  distinct ids and include each question of the first quiz in its unanswered state. The
  load succeeds and leaves the store as it is; every question saved with an answer other
  than the empty string is found again under its id with that same answer, every question
  saved unanswered is found unanswered, and every question whose id is absent from the
  record is as it was. An example follows.
\<close>

lemma saved_answers_round_trip:
  assumes sp: "saveProgress (config q)" and nc: "\<not> isCompleted q"
    and st: "st = Available m True"
    and ids: "distinct (map qid (questions q))"
    and valid: "\<forall>x \<in> set (questions q). \<forall>a. selectedAnswer x = Some a \<longrightarrow> a \<in> set (options x)"
    and sp0: "saveProgress (config q0)"
    and key0: "storageKey (config q0) = storageKey (config q)"
    and ids0: "distinct (map qid (questions q0))"
    and same: "\<forall>x \<in> set (questions q). resetAnswer x \<in> set (questions q0)"
  shows "\<exists>q1. loadFromStorage (q0, saveToStorage q st) = (True, q1, saveToStorage q st)
     \<and> (\<forall>x \<in> set (questions q). \<forall>a. selectedAnswer x = Some a \<and> a \<noteq> [] \<longrightarrow>
           getQuestion q1 (qid x) = Some x)
     \<and> (\<forall>x \<in> set (questions q). selectedAnswer x = None \<longrightarrow>
           getQuestion q1 (qid x) = Some x)
     \<and> (\<forall>y \<in> set (questions q0). qid y \<notin> qid ` set (questions q) \<longrightarrow>
           getQuestion q1 (qid y) = Some y)"
proof -
  let ?sas = "map (\<lambda>x. (qid x, selectedAnswer x)) (questions q)"
  let ?st1 = "saveToStorage q st"
  let ?qs1 = "map (restored ?sas) (questions q0)"
  let ?q1 = "q0\<lparr>questions := ?qs1\<rparr>"
  let ?q2 = "case startTime q of Some t \<Rightarrow> ?q1\<lparr>startTime := Some t\<rparr> | None \<Rightarrow> ?q1"
  let ?q3 = "?q2\<lparr>attempts := attempts q\<rparr>"
  have st1: "?st1 = Available (m(storageKey (config q) \<mapsto> Parsed (quizState q))) True"
    unfolding st by (rule saveToStorage_writes [OF sp nc])
  have d: "distinct (map fst ?sas)" using ids by (simp add: o_def)
  have reset_in: "y = resetAnswer x" if "x \<in> set (questions q)" "y \<in> set (questions q0)" "qid y = qid x" for x y
  proof -
    from that(1) same have r: "resetAnswer x \<in> set (questions q0)" by blast
    have "qid (resetAnswer x) = qid y" using that(3) by (simp add: resetAnswer_def)
    with ids0 r that(2) show ?thesis by (metis distinct_map inj_onD)
  qed
  have ok: "\<forall>y \<in> set (questions q0). \<forall>a. map_of ?sas (qid y) = Some (Some a) \<and> a \<noteq> [] \<longrightarrow> a \<in> set (options y)"
  proof (intro ballI allI impI)
    fix y a
    assume y: "y \<in> set (questions q0)" and h: "map_of ?sas (qid y) = Some (Some a) \<and> a \<noteq> []"
    then have "(qid y, Some a) \<in> set ?sas" by (auto dest: map_of_SomeD)
    then obtain x where x: "x \<in> set (questions q)" "qid x = qid y" "selectedAnswer x = Some a"
      by auto
    from reset_in [OF x(1) y] x(2) have "y = resetAnswer x" by simp
    moreover from valid x have "a \<in> set (options x)" by blast
    ultimately show "a \<in> set (options y)" by (simp add: resetAnswer_def)
  qed
  have ra: "restoreAnswers ?sas (questions q0) = (None, ?qs1)"
    by (rule restoreAnswers_eq [OF d ids0 ok])
  have load: "loadFromStorage (q0, ?st1) = (True, ?q3, ?st1)"
    using sp0 nc ra by (simp add: loadFromStorage_def st1 key0 quizState_def Let_def)
  have gq: "getQuestion ?q3 i = map_option (restored ?sas) (find (\<lambda>z. qid z = i) (questions q0))" for i
    by (simp add: getQuestion_def find_map_qid split: option.splits)
  have found: "find (\<lambda>z. qid z = qid x) (questions q0) = Some (resetAnswer x)"
    if "x \<in> set (questions q)" for x
  proof -
    from that same have r: "resetAnswer x \<in> set (questions q0)" by blast
    from find_distinct_qid [OF ids0 r] show ?thesis by (simp add: resetAnswer_def)
  qed
  have a1: "getQuestion ?q3 (qid x) = Some x"
    if x: "x \<in> set (questions q)" and s: "selectedAnswer x = Some a" and a: "a \<noteq> []" for x a
  proof -
    have "map_of ?sas (qid x) = Some (Some a)" using map_of_saved [OF ids x] s by simp
    then have "restored ?sas (resetAnswer x) = (resetAnswer x)\<lparr>selectedAnswer := Some a\<rparr>"
      using a by (simp add: restored_def resetAnswer_def)
    also have "\<dots> = x" using s by (simp add: resetAnswer_def)
    finally show ?thesis using found [OF x] by (simp add: gq)
  qed
  have a2: "getQuestion ?q3 (qid x) = Some x"
    if x: "x \<in> set (questions q)" and s: "selectedAnswer x = None" for x
  proof -
    have "map_of ?sas (qid x) = Some None" using map_of_saved [OF ids x] s by simp
    then have "restored ?sas (resetAnswer x) = resetAnswer x"
      by (simp add: restored_def resetAnswer_def)
    also have "\<dots> = x" using s by (simp add: resetAnswer_def)
    finally show ?thesis using found [OF x] by (simp add: gq)
  qed
  have a3: "getQuestion ?q3 (qid y) = Some y"
    if y: "y \<in> set (questions q0)" and n: "qid y \<notin> qid ` set (questions q)" for y
  proof -
    have "map_of ?sas (qid y) = None" by (rule map_of_saved_None [OF n])
    then have "restored ?sas y = y" by (simp add: restored_def)
    then show ?thesis using find_distinct_qid [OF ids0 y] by (simp add: gq)
  qed
  show ?thesis
    apply (rule exI [of _ ?q3])
    using load a1 a2 a3 apply blast
    done
qed

lemma saved_answers_round_trip_example:
  "saveProgress (config (fst capitalOnly)) \<and> \<not> isCompleted (fst capitalOnly)
   \<and> distinct (map qid (questions (fst capitalOnly)))
   \<and> map selectedAnswer (questions (fst capitalOnly)) = [Some ''Paris'']
   \<and> saveToStorage (fst capitalOnly) emptyStore = snd capitalOnly
   \<and> map qid (questions sampleQuiz) = [1, 2]
   \<and> map selectedAnswer (questions sampleQuiz) = [None, None]
   \<and> fst (loadFromStorage (sampleQuiz, snd capitalOnly))
   \<and> getQuestion (fst (snd (loadFromStorage (sampleQuiz, snd capitalOnly)))) 1
       = Some (capitalQuestion\<lparr>selectedAnswer := Some ''Paris''\<rparr>)
   \<and> getQuestion (fst (snd (loadFromStorage (sampleQuiz, snd capitalOnly)))) 2
       = Some compiledQuestion"
proof -
  obtain q st where c: "capitalOnly = (q, st)" by (cases capitalOnly)
  let ?x = "capitalQuestion\<lparr>selectedAnswer := Some ''Paris''\<rparr>"
  have qs: "questions q = [?x]" using c by (auto simp: capitalOnly_eq)
  have h1: "saveProgress (config q)"
    using c by (auto simp: capitalOnly_eq sampleQuiz_def Quiz_def defaultOptions_def)
  have h2: "\<not> isCompleted q" using c by (auto simp: capitalOnly_eq)
  have h3: "emptyStore = Available Map.empty True" by (simp add: emptyStore_def)
  have h4: "distinct (map qid (questions q))" by (simp add: qs)
  have h5: "\<forall>x \<in> set (questions q). \<forall>a. selectedAnswer x = Some a \<longrightarrow> a \<in> set (options x)"
    by (simp add: qs capitalQuestion_def)
  have h6: "saveProgress (config sampleQuiz)"
    by (simp add: sampleQuiz_def Quiz_def defaultOptions_def)
  have h7: "storageKey (config sampleQuiz) = storageKey (config q)"
    using c by (auto simp: capitalOnly_eq)
  have h8: "distinct (map qid (questions sampleQuiz))"
    by (simp add: sampleQuiz_def Quiz_def capitalQuestion_def compiledQuestion_def)
  have h9: "\<forall>x \<in> set (questions q). resetAnswer x \<in> set (questions sampleQuiz)"
    by (simp add: qs sampleQuiz_def Quiz_def resetAnswer_def capitalQuestion_def)
  have sv: "saveToStorage q emptyStore = st"
    using c h1 h2 by (auto simp: capitalOnly_eq saveToStorage_def emptyStore_def quizState_def
        sampleQuiz_def Quiz_def defaultOptions_def capitalQuestion_def)
  from saved_answers_round_trip [OF h1 h2 h3 h4 h5 h6 h7 h8 h9]
  obtain q1 where l: "loadFromStorage (sampleQuiz, saveToStorage q emptyStore)
        = (True, q1, saveToStorage q emptyStore)"
    and r1: "\<forall>x \<in> set (questions q). \<forall>a. selectedAnswer x = Some a \<and> a \<noteq> [] \<longrightarrow>
           getQuestion q1 (qid x) = Some x"
    and r3: "\<forall>y \<in> set (questions sampleQuiz). qid y \<notin> qid ` set (questions q) \<longrightarrow>
           getQuestion q1 (qid y) = Some y"
    by blast
  from r1 have g1: "getQuestion q1 1 = Some ?x" by (simp add: qs capitalQuestion_def)
  have "compiledQuestion \<in> set (questions sampleQuiz)" by (simp add: sampleQuiz_def Quiz_def)
  moreover have "qid compiledQuestion \<notin> qid ` set (questions q)"
    by (simp add: qs capitalQuestion_def compiledQuestion_def)
  ultimately have "getQuestion q1 (qid compiledQuestion) = Some compiledQuestion"
    using r3 by blast
  then have g2: "getQuestion q1 2 = Some compiledQuestion" by (simp add: compiledQuestion_def)
  have f1: "map selectedAnswer (questions q) = [Some ''Paris'']" by (simp add: qs)
  have f2: "map qid (questions sampleQuiz) = [1, 2]"
    by (simp add: sampleQuiz_def Quiz_def capitalQuestion_def compiledQuestion_def)
  have f3: "map selectedAnswer (questions sampleQuiz) = [None, None]"
    by (simp add: sampleQuiz_def Quiz_def capitalQuestion_def compiledQuestion_def)
  show ?thesis unfolding c using h1 h2 h4 f1 f2 f3 sv l g1 g2 by simp
qed

section \<open>Submission\<close>

text \<open>
  Claim C1. \<open>submitQuiz\<close> succeeds exactly when every question is answered and the quiz
  is not completed. When it succeeds the quiz is completed, its score is the number of
  questions whose \<open>isCorrect\<close> holds, its attempts are one more, and any later call is
  rejected as already submitted, which leaves the score as it is.
\<close>

theorem submitQuiz_once:
  "((\<exists>res. submitQuiz now (q, st) = Inr res) \<longleftrightarrow> areAllQuestionsAnswered q \<and> \<not> isCompleted q)
   \<and> (\<forall>r q' st'. submitQuiz now (q, st) = Inr (r, q', st') \<longrightarrow>
          isCompleted q'
        \<and> score q' = length (filter isCorrect (questions q))
        \<and> attempts q' = attempts q + 1
        \<and> (\<forall>now'. submitQuiz now' (q', st') = Inl AlreadySubmitted))"
  by (auto simp: submitQuiz_def calculateScore_eq Let_def areAllQuestionsAnswered_def)

theorem submitQuiz_once_witness:
  "areAllQuestionsAnswered (fst answeredQuiz) \<and> \<not> isCompleted (fst answeredQuiz)
   \<and> \<not> isl (submitQuiz 3000 answeredQuiz)
   \<and> isCompleted (fst submittedQuiz)
   \<and> score (fst submittedQuiz) = 1
   \<and> attempts (fst submittedQuiz) = attempts (fst answeredQuiz) + 1
   \<and> submitQuiz 4000 submittedQuiz = Inl AlreadySubmitted"
proof -
  obtain q st where a: "answeredQuiz = (q, st)" by (cases answeredQuiz)
  have h: "areAllQuestionsAnswered q \<and> \<not> isCompleted q"
    using a by (simp add: answeredQuiz_eq areAllQuestionsAnswered_def) (auto)
  note t = submitQuiz_once [of 3000 q st]
  from t h obtain res where r: "submitQuiz 3000 (q, st) = Inr res" by blast
  obtain r q' st' where res: "res = (r, q', st')" by (cases res)
  from t r res have p: "isCompleted q' \<and> score q' = length (filter isCorrect (questions q))
     \<and> attempts q' = attempts q + 1 \<and> submitQuiz 4000 (q', st') = Inl AlreadySubmitted"
    by blast
  have s: "submittedQuiz = (q', st')" using a r res by (simp add: submittedQuiz_def)
  have c: "length (filter isCorrect (questions q)) = 1"
    using a by (auto simp: answeredQuiz_eq isCorrect_def capitalQuestion_def compiledQuestion_def)
  show ?thesis unfolding s a using h p c r by simp
qed

section \<open>Scoring\<close>

text \<open>
  Claim C3. The result of a submission carries \<open>Math.round((score / total) * 100)\<close>,
  \<open>score / total >= passThreshold\<close> and \<open>Math.ceil(total * passThreshold)\<close>, all three
  computed in doubles. The two examples of the claim come out as it says
  (\<open>generateResults_examples\<close>), and so does every percentage that is not an exact tie
  (\<open>generateResults_percentage\<close>). At an exact tie the double product can fall below the
  tie: for 23 right answers out of 40 the quotient is the double just below 0.575, the
  product is 57.49999999999999, and the percentage of the result is 57 where rounding 57.5
  half up gives 58.
\<close>

theorem forty_questions_percentage:
  "\<exists>res q' st'. submitQuiz 5000 (fortyQuiz, emptyStore) = Inr (res, q', st')
     \<and> r_total res = 40 \<and> r_score res = 23
     \<and> r_percentage res = Fin 57
     \<and> roundHalfUp_percent 23 40 = 58
     \<and> r_passed res = False
     \<and> r_passingScore res = Fin 28"
  by (simp add: submitQuiz_def fortyQuiz_facts calculateScore_eq Let_def generateResults_def
      isPassed_def tie_rounds_down default_threshold)
    (simp add: double_eval)

section \<open>Answering\<close>

text \<open>
  Claim C5. \<open>Quiz.setAnswer\<close> returns a boolean and never throws: the model's function is
  total and its \<open>catch\<close> turns every throw of the body into \<open>False\<close>. When the id
  matches no question, or the value is not among the options of the question found, the
  result is \<open>False\<close> and the quiz (every question's selected answer, the start time, the
  completed flag, the score, the attempts) and the store are what they were. Otherwise the
  result is \<open>True\<close>.
\<close>

theorem setAnswer_rejects_without_change:
  "(case getQuestion q i of
      None \<Rightarrow> setAnswer now i a (q, st) = (False, q, st)
    | Some x \<Rightarrow>
        (a \<notin> set (options x) \<longrightarrow> setAnswer now i a (q, st) = (False, q, st))
      \<and> (a \<in> set (options x) \<longrightarrow> fst (setAnswer now i a (q, st))))"
  by (simp add: setAnswer_def setAnswer_try_def Question_setAnswer_def Let_def split: option.splits)

theorem setAnswer_rejects_without_change_witness:
  "getQuestion sampleQuiz 99 = None
   \<and> setAnswer 1000 99 ''Paris'' (sampleQuiz, emptyStore) = (False, sampleQuiz, emptyStore)
   \<and> getQuestion sampleQuiz 1 = Some capitalQuestion
   \<and> ''Rome'' \<notin> set (options capitalQuestion)
   \<and> setAnswer 1000 1 ''Rome'' (sampleQuiz, emptyStore) = (False, sampleQuiz, emptyStore)
   \<and> ''Paris'' \<in> set (options capitalQuestion)
   \<and> fst (setAnswer 1000 1 ''Paris'' (sampleQuiz, emptyStore))"
proof -
  have g1: "getQuestion sampleQuiz 99 = None"
    by (simp add: getQuestion_def sampleQuiz_def Quiz_def capitalQuestion_def compiledQuestion_def)
  have g2: "getQuestion sampleQuiz 1 = Some capitalQuestion"
    by (simp add: getQuestion_def sampleQuiz_def Quiz_def capitalQuestion_def)
  have o1: "''Rome'' \<notin> set (options capitalQuestion)" by (simp add: capitalQuestion_def)
  have o2: "''Paris'' \<in> set (options capitalQuestion)" by (simp add: capitalQuestion_def)
  from setAnswer_rejects_without_change [where q = sampleQuiz and i = 99 and now = 1000 and a = "''Paris''" and st = emptyStore] g1
  have a: "setAnswer 1000 99 ''Paris'' (sampleQuiz, emptyStore) = (False, sampleQuiz, emptyStore)"
    by simp
  from setAnswer_rejects_without_change [where q = sampleQuiz and i = 1 and now = 1000 and a = "''Rome''" and st = emptyStore] g2 o1
  have b: "setAnswer 1000 1 ''Rome'' (sampleQuiz, emptyStore) = (False, sampleQuiz, emptyStore)"
    by simp
  from setAnswer_rejects_without_change [where q = sampleQuiz and i = 1 and now = 1000 and a = "''Paris''" and st = emptyStore] g2 o2
  have c: "fst (setAnswer 1000 1 ''Paris'' (sampleQuiz, emptyStore))"
    by simp
  show ?thesis using g1 g2 o1 o2 a b c by blast
qed

text \<open>
  Claim C2 says that a completed quiz rejects a new answer. The code does not: after the
  sample quiz has been submitted, \<open>setAnswer\<close> replaces "Paris" by "London" in question 1
  and reports success.
\<close>

theorem completed_quiz_accepts_reanswer:
  "isCompleted (fst submittedQuiz)
   \<and> map selectedAnswer (questions (fst submittedQuiz)) = [Some ''Paris'', Some ''True'']
   \<and> fst (setAnswer 4000 1 ''London'' submittedQuiz)
   \<and> map selectedAnswer (questions (fst (snd (setAnswer 4000 1 ''London'' submittedQuiz))))
       = [Some ''London'', Some ''True'']"
  by (simp add: submittedQuiz_eq setAnswer_def setAnswer_try_def getQuestion_def
      capitalQuestion_def compiledQuestion_def Question_setAnswer_def Let_def)

text \<open>
  Claim C2, as the code has it. On a completed quiz \<open>Quiz.setAnswer\<close> still delegates to
  the question: for an id that is found and a value among that question's options it
  returns \<open>True\<close> and that question's selected answer becomes the value, the other
  questions are as before. What completion does lock is the rest: nothing is written to
  the store, and the completed flag, the score, the attempts and the end time stay as they
  were (the score is not computed again).
\<close>

theorem setAnswer_on_completed_quiz:
  assumes "isCompleted q" and "getQuestion q i = Some x" and "a \<in> set (options x)"
  shows "\<exists>q'. setAnswer now i a (q, st) = (True, q', st)
           \<and> getQuestion q' i = Some (x\<lparr>selectedAnswer := Some a\<rparr>)
           \<and> (\<forall>j. j \<noteq> i \<longrightarrow> getQuestion q' j = getQuestion q j)
           \<and> isCompleted q' \<and> score q' = score q \<and> attempts q' = attempts q
           \<and> endTime q' = endTime q"
proof -
  let ?qs = "replaceFirst i (x\<lparr>selectedAnswer := Some a\<rparr>) (questions q)"
  let ?q1 = "q\<lparr>questions := ?qs\<rparr>"
  let ?q2 = "if startTime q = None then q\<lparr>questions := ?qs, startTime := Some now\<rparr> else ?q1"
  have r: "setAnswer now i a (q, st) = (True, ?q2, st)"
    by (rule setAnswer_completed_eq [OF assms])
  have g: "getQuestion ?q2 i = Some (x\<lparr>selectedAnswer := Some a\<rparr>)"
    using getQuestion_replaced [OF assms(2), of "Some a"] by (simp add: getQuestion_def)
  have o: "j \<noteq> i \<Longrightarrow> getQuestion ?q2 j = getQuestion q j" for j
    using getQuestion_replaced_other [OF assms(2), of j "Some a"] by (simp add: getQuestion_def)
  have f: "isCompleted ?q2 \<and> score ?q2 = score q \<and> attempts ?q2 = attempts q \<and> endTime ?q2 = endTime q"
    using assms(1) by simp
  show ?thesis
    apply (rule exI [of _ ?q2])
    using r g o f apply blast
    done
qed

theorem setAnswer_on_completed_quiz_witness:
  "isCompleted (fst submittedQuiz)
   \<and> getQuestion (fst submittedQuiz) 1 = Some (capitalQuestion\<lparr>selectedAnswer := Some ''Paris''\<rparr>)
   \<and> ''London'' \<in> set (options (capitalQuestion\<lparr>selectedAnswer := Some ''Paris''\<rparr>))
   \<and> fst (setAnswer 4000 1 ''London'' submittedQuiz)
   \<and> snd (snd (setAnswer 4000 1 ''London'' submittedQuiz)) = snd submittedQuiz
   \<and> getQuestion (fst (snd (setAnswer 4000 1 ''London'' submittedQuiz))) 1
       = Some (capitalQuestion\<lparr>selectedAnswer := Some ''London''\<rparr>)
   \<and> score (fst (snd (setAnswer 4000 1 ''London'' submittedQuiz))) = 1"
proof -
  obtain q st where s: "submittedQuiz = (q, st)" by (cases submittedQuiz)
  have h1: "isCompleted q" using s by (auto simp: submittedQuiz_eq)
  have h2: "getQuestion q 1 = Some (capitalQuestion\<lparr>selectedAnswer := Some ''Paris''\<rparr>)"
    using s by (auto simp: submittedQuiz_eq getQuestion_def capitalQuestion_def)
  have h3: "''London'' \<in> set (options (capitalQuestion\<lparr>selectedAnswer := Some ''Paris''\<rparr>))"
    by (simp add: capitalQuestion_def)
  have sc: "score q = 1" using s by (auto simp: submittedQuiz_eq)
  from setAnswer_on_completed_quiz [OF h1 h2 h3, of 4000 st]
  obtain q' where a: "setAnswer 4000 1 ''London'' (q, st) = (True, q', st)"
    and b: "getQuestion q' 1 = Some (capitalQuestion\<lparr>selectedAnswer := Some ''Paris'', selectedAnswer := Some ''London''\<rparr>)"
    and c: "score q' = score q"
    by blast
  from b have b': "getQuestion q' 1 = Some (capitalQuestion\<lparr>selectedAnswer := Some ''London''\<rparr>)"
    by simp
  show ?thesis unfolding s using h1 h2 h3 sc a b' c by simp
qed

section \<open>Construction\<close>

text \<open>
  Claim C6 asks for at least two distinct options. No constructor compares the options with
  each other: the selectable-options variant accepts the options "A", "A", one distinct
  value, and the base constructor accepts a single option.
\<close>

theorem duplicate_options_accepted:
  "MultipleChoiceQuestion 1 ''Pick one'' (Some [''A'', ''A'']) ''A''
     = Inr \<lparr>qid = 1, qtext = ''Pick one'', options = [''A'', ''A''], correctAnswer = ''A'',
            qtype = ''multiple-choice'', selectedAnswer = None\<rparr>
   \<and> card (set [''A'', ''A'' :: string]) = 1
   \<and> Question 1 ''Pick one'' (Some [''A'']) ''A'' ''multiple-choice''
     = Inr \<lparr>qid = 1, qtext = ''Pick one'', options = [''A''], correctAnswer = ''A'',
            qtype = ''multiple-choice'', selectedAnswer = None\<rparr>"
  by (simp add: MultipleChoiceQuestion_def Question_def validateInput_def
      validateMultipleChoiceOptions_def)

text \<open>
  Claim C6, as the code has it. The base constructor succeeds exactly when the id, the text
  and the correct answer are truthy, the options are an array and the correct answer is an
  element of it. The selectable-options variant asks in addition for between 2 and 6
  options, counted with their repetitions. The binary variant succeeds exactly when the id
  and the text are truthy and the correct answer is "True" or "False", and its options are
  those two. Every other construction fails with an error. So every constructed question
  has its correct answer among its options, and starts unanswered.
\<close>

theorem construction_checks:
  "((\<exists>q. Question i t os c ty = Inr q) \<longleftrightarrow>
      (\<exists>opts. os = Some opts \<and> i \<noteq> 0 \<and> t \<noteq> [] \<and> c \<noteq> [] \<and> c \<in> set opts))
   \<and> ((\<exists>q. MultipleChoiceQuestion i t os c = Inr q) \<longleftrightarrow>
      (\<exists>opts. os = Some opts \<and> i \<noteq> 0 \<and> t \<noteq> [] \<and> c \<noteq> [] \<and> c \<in> set opts
             \<and> 2 \<le> length opts \<and> length opts \<le> 6))
   \<and> ((\<exists>q. TrueFalseQuestion i t c = Inr q) \<longleftrightarrow>
      (i \<noteq> 0 \<and> t \<noteq> [] \<and> (c = ''True'' \<or> c = ''False'')))
   \<and> (\<forall>q. Question i t os c ty = Inr q \<or> MultipleChoiceQuestion i t os c = Inr q
          \<or> TrueFalseQuestion i t c = Inr q \<longrightarrow>
          correctAnswer q \<in> set (options q) \<and> correctAnswer q = c \<and> selectedAnswer q = None)
   \<and> (\<forall>q. Question i t os c ty = Inr q \<or> MultipleChoiceQuestion i t os c = Inr q \<longrightarrow>
          os = Some (options q))
   \<and> (\<forall>q. MultipleChoiceQuestion i t os c = Inr q \<longrightarrow>
          2 \<le> length (options q) \<and> length (options q) \<le> 6)
   \<and> (\<forall>q. TrueFalseQuestion i t c = Inr q \<longrightarrow> options q = [''True'', ''False''])"
  by (auto simp: Question_def MultipleChoiceQuestion_def TrueFalseQuestion_def validateInput_def
      validateMultipleChoiceOptions_def split: option.splits if_splits sum.splits)

theorem construction_checks_witness:
  "MultipleChoiceQuestion 1 ''What is the capital of France?''
      (Some [''London'', ''Berlin'', ''Paris'', ''Madrid'']) ''Paris'' = Inr capitalQuestion
   \<and> correctAnswer capitalQuestion \<in> set (options capitalQuestion)
   \<and> 2 \<le> length (options capitalQuestion) \<and> length (options capitalQuestion) \<le> 6
   \<and> TrueFalseQuestion 2 ''JavaScript is a compiled language.'' ''False'' = Inr compiledQuestion
   \<and> options compiledQuestion = [''True'', ''False'']
   \<and> correctAnswer compiledQuestion \<in> set (options compiledQuestion)
   \<and> isl (TrueFalseQuestion 2 ''JavaScript is a compiled language.'' ''Maybe'')
   \<and> isl (MultipleChoiceQuestion 1 ''What is the capital of France?'' (Some [''Paris'']) ''Paris'')
   \<and> isl (MultipleChoiceQuestion 1 ''What is the capital of France?''
             (Some [''London'', ''Berlin'', ''Paris'', ''Madrid'']) ''Rome'')"
proof -
  let ?t = "''What is the capital of France?''"
  let ?os = "Some [''London'', ''Berlin'', ''Paris'', ''Madrid'']"
  have m: "MultipleChoiceQuestion 1 ?t ?os ''Paris'' = Inr capitalQuestion"
    by (simp add: MultipleChoiceQuestion_def Question_def validateInput_def
        validateMultipleChoiceOptions_def capitalQuestion_def)
  have f: "TrueFalseQuestion 2 ''JavaScript is a compiled language.'' ''False'' = Inr compiledQuestion"
    by (simp add: TrueFalseQuestion_def Question_def validateInput_def compiledQuestion_def)
  note c1 = construction_checks [where i = 1 and t = ?t and os = ?os and c = "''Paris''"]
  note c2 = construction_checks [where i = 2 and t = "''JavaScript is a compiled language.''"
      and c = "''False''"]
  note c3 = construction_checks [where i = 2 and t = "''JavaScript is a compiled language.''"
      and c = "''Maybe''"]
  note c4 = construction_checks [where i = 1 and t = ?t and os = "Some [''Paris'']" and c = "''Paris''"]
  note c5 = construction_checks [where i = 1 and t = ?t and os = ?os and c = "''Rome''"]
  have a: "correctAnswer capitalQuestion \<in> set (options capitalQuestion)
      \<and> 2 \<le> length (options capitalQuestion) \<and> length (options capitalQuestion) \<le> 6"
    using c1 m by blast
  have b: "options compiledQuestion = [''True'', ''False'']
      \<and> correctAnswer compiledQuestion \<in> set (options compiledQuestion)"
    using c2 f by blast
  have n3: "\<not> (\<exists>q. TrueFalseQuestion 2 ''JavaScript is a compiled language.'' ''Maybe'' = Inr q)"
    using c3 by simp
  have n4: "\<not> (\<exists>q. MultipleChoiceQuestion 1 ?t (Some [''Paris'']) ''Paris'' = Inr q)"
    using c4 by simp
  have n5: "\<not> (\<exists>q. MultipleChoiceQuestion 1 ?t ?os ''Rome'' = Inr q)"
    using c5 by simp
  have isl_iff: "isl v \<longleftrightarrow> \<not> (\<exists>q. v = Inr q)" for v :: "error + question"
    by (cases v) auto
  show ?thesis unfolding isl_iff using m f a b n3 n4 n5 by blast
qed

section \<open>Persistence\<close>

text \<open>
  Claim C8 speaks of every quiz. A quiz built with \<open>saveProgress\<close> false returns from
  \<open>loadFromStorage\<close> before it reads the store: the result is \<open>False\<close> and nothing is
  restored, but the completed record is still stored afterwards.
\<close>

theorem completed_record_kept_when_saving_is_off:
  "\<not> saveProgress (config noSaveQuiz)
   \<and> stored staleStore (storageKey (config noSaveQuiz)) = Some (Parsed staleState)
   \<and> p_isCompleted staleState
   \<and> loadFromStorage (noSaveQuiz, staleStore) = (False, noSaveQuiz, staleStore)
   \<and> stored (snd (snd (loadFromStorage (noSaveQuiz, staleStore)))) (storageKey (config noSaveQuiz))
       = Some (Parsed staleState)"
  by (simp add: noSaveQuiz_def Quiz_def loadFromStorage_def staleStore_def staleState_def)

text \<open>
  Claim C8, as the code has it. For a quiz that saves its progress (the default), when the
  store holds under the quiz's key a record whose completed flag is true,
  \<open>loadFromStorage\<close> returns \<open>False\<close>, leaves the quiz as it was (every selected answer, the
  start time, the attempts), and removes the record, leaving every other key of the store
  alone. For a quiz that does not save its progress, \<open>loadFromStorage\<close> returns \<open>False\<close> and
  leaves both the quiz and the store as they were.
\<close>

theorem completed_record_is_discarded:
  "(saveProgress (config q) \<and> stored st (storageKey (config q)) = Some (Parsed state)
      \<and> p_isCompleted state \<longrightarrow>
      (\<exists>st'. loadFromStorage (q, st) = (False, q, st')
          \<and> stored st' (storageKey (config q)) = None
          \<and> (\<forall>k. k \<noteq> storageKey (config q) \<longrightarrow> stored st' k = stored st k)))
   \<and> (\<not> saveProgress (config q) \<longrightarrow> loadFromStorage (q, st) = (False, q, st))"
proof (intro conjI impI)
  assume a: "saveProgress (config q) \<and> stored st (storageKey (config q)) = Some (Parsed state)
      \<and> p_isCompleted state"
  then obtain m w where st: "st = Available m w" by (cases st) auto
  with a have "loadFromStorage (q, st) = (False, q, clearStorage q st)"
    by (simp add: loadFromStorage_def)
  then show "\<exists>st'. loadFromStorage (q, st) = (False, q, st')
          \<and> stored st' (storageKey (config q)) = None
          \<and> (\<forall>k. k \<noteq> storageKey (config q) \<longrightarrow> stored st' k = stored st k)"
    by (simp add: stored_clearStorage)
next
  assume "\<not> saveProgress (config q)"
  then show "loadFromStorage (q, st) = (False, q, st)"
    by (simp add: loadFromStorage_def)
qed

theorem completed_record_is_discarded_witness:
  "saveProgress (config sampleQuiz)
   \<and> stored staleStore (storageKey (config sampleQuiz)) = Some (Parsed staleState)
   \<and> p_isCompleted staleState
   \<and> loadFromStorage (sampleQuiz, staleStore) = (False, sampleQuiz, emptyStore)
   \<and> \<not> saveProgress (config noSaveQuiz)
   \<and> loadFromStorage (noSaveQuiz, staleStore) = (False, noSaveQuiz, staleStore)"
proof -
  have k: "storageKey (config sampleQuiz) = ''quizState''"
    by (simp add: sampleQuiz_def Quiz_def defaultOptions_def)
  have h1: "saveProgress (config sampleQuiz)"
    by (simp add: sampleQuiz_def Quiz_def defaultOptions_def)
  have h2: "stored staleStore (storageKey (config sampleQuiz)) = Some (Parsed staleState)"
    by (simp add: k staleStore_def)
  have h3: "p_isCompleted staleState" by (simp add: staleState_def)
  from completed_record_is_discarded [of sampleQuiz staleStore staleState] h1 h2 h3
  obtain st' where l: "loadFromStorage (sampleQuiz, staleStore) = (False, sampleQuiz, st')"
    by blast
  have "snd (snd (loadFromStorage (sampleQuiz, staleStore))) = emptyStore"
    using h1 h3 by (simp add: loadFromStorage_def k staleStore_def clearStorage_def emptyStore_def)
  with l have e: "st' = emptyStore" by simp
  have n1: "\<not> saveProgress (config noSaveQuiz)" by (simp add: noSaveQuiz_def Quiz_def)
  from completed_record_is_discarded [of noSaveQuiz staleStore staleState] n1
  have n2: "loadFromStorage (noSaveQuiz, staleStore) = (False, noSaveQuiz, staleStore)"
    by blast
  from l e h1 h2 h3 n1 n2 show ?thesis by simp
qed

text \<open>
  Claim C7. A saved record gives every non-null answer back to a fresh quiz over the same
  questions. Where the ids are distinct and the saved answers are not empty it does
  (\<open>saved_answers_round_trip\<close>). But \<open>loadFromStorage\<close> tests the saved answer for
  truthiness, where \<open>areAllQuestionsAnswered\<close> and \<open>getAnsweredCount\<close> test it against
  \<open>null\<close>: a question whose options hold the empty string, answered with it, counts as
  answered and is saved with that answer, and after a load that reports success it is
  unanswered.
\<close>

theorem empty_answer_is_not_restored:
  "MultipleChoiceQuestion 1 ''Pick one'' (Some ['''', ''A'']) ''A'' = Inr blankQuestion
   \<and> fst (setAnswer 1000 1 '''' (blankQuiz, emptyStore))
   \<and> \<not> isCompleted (fst blankAnswered)
   \<and> map selectedAnswer (questions (fst blankAnswered)) = [Some '''']
   \<and> areAllQuestionsAnswered (fst blankAnswered)
   \<and> getAnsweredCount (fst blankAnswered) = 1
   \<and> stored (snd blankAnswered) ''quizState''
       = Some (Parsed \<lparr>answers = [(1, Some '''')], p_startTime = Some 1000,
                        p_isCompleted = False, p_attempts = 0, version = ''1.0''\<rparr>)
   \<and> fst (loadFromStorage (blankQuiz, snd blankAnswered))
   \<and> map selectedAnswer (questions (fst (snd (loadFromStorage (blankQuiz, snd blankAnswered)))))
       = [None]
   \<and> getAnsweredCount (fst (snd (loadFromStorage (blankQuiz, snd blankAnswered)))) = 0"
  by (simp add: MultipleChoiceQuestion_def Question_def validateInput_def
      validateMultipleChoiceOptions_def blankQuestion_def blankQuiz_def blankAnswered_def
      setAnswer_def setAnswer_try_def Quiz_def defaultOptions_def emptyStore_def getQuestion_def
      Question_setAnswer_def saveToStorage_def quizState_def loadFromStorage_def Let_def
      areAllQuestionsAnswered_def getAnsweredCount_def)

section \<open>Reset\<close>

text \<open>
  Claim C9. \<open>resetAllAnswers\<close> always returns. Afterwards the score is 0, the quiz is not
  completed, the start and end times are null, every question is unanswered and otherwise
  as it was, no record is stored under the quiz's key and the other keys are untouched;
  the attempts and the configuration are unchanged. In particular, right after a successful
  \<open>submitQuiz\<close> the attempts still count that submission.
\<close>

theorem resetAllAnswers_effect:
  "resetAllAnswers (q, st) = (q', st') \<Longrightarrow>
     score q' = 0 \<and> \<not> isCompleted q' \<and> startTime q' = None \<and> endTime q' = None
   \<and> map selectedAnswer (questions q') = replicate (length (questions q)) None
   \<and> questions q' = map (\<lambda>x. x\<lparr>selectedAnswer := None\<rparr>) (questions q)
   \<and> stored st' (storageKey (config q)) = None
   \<and> (\<forall>k. k \<noteq> storageKey (config q) \<longrightarrow> stored st' k = stored st k)
   \<and> attempts q' = attempts q
   \<and> config q' = config q
   \<and> (\<forall>now r q0 st0. submitQuiz now (q0, st0) = Inr (r, q, st) \<longrightarrow> attempts q' = attempts q0 + 1)"
proof -
  assume a: "resetAllAnswers (q, st) = (q', st')"
  have sub: "submitQuiz now (q0, st0) = Inr (r, q, st) \<Longrightarrow> attempts q = attempts q0 + 1" for now q0 st0 r
    by (auto simp: submitQuiz_def calculateScore_eq Let_def split: if_splits)
  from a have q': "q' = q\<lparr>questions := map resetAnswer (questions q), isCompleted := False, score := 0,
           startTime := None, endTime := None\<rparr>" and st': "st' = clearStorage q st"
    by (simp_all add: resetAllAnswers_def)
  show ?thesis using sub
    by (simp add: q' st' stored_clearStorage resetAnswer_def o_def map_replicate_const)
qed

theorem resetAllAnswers_effect_witness:
  "score (fst (resetAllAnswers submittedQuiz)) = 0
   \<and> \<not> isCompleted (fst (resetAllAnswers submittedQuiz))
   \<and> startTime (fst (resetAllAnswers submittedQuiz)) = None
   \<and> endTime (fst (resetAllAnswers submittedQuiz)) = None
   \<and> map selectedAnswer (questions (fst (resetAllAnswers submittedQuiz))) = [None, None]
   \<and> stored (snd (resetAllAnswers submittedQuiz)) ''quizState'' = None
   \<and> attempts (fst submittedQuiz) = 1
   \<and> attempts (fst (resetAllAnswers submittedQuiz)) = attempts (fst answeredQuiz) + 1"
proof -
  obtain q st where s: "submittedQuiz = (q, st)" by (cases submittedQuiz)
  obtain q' st' where r: "resetAllAnswers (q, st) = (q', st')" by (cases "resetAllAnswers (q, st)")
  obtain q0 st0 where a: "answeredQuiz = (q0, st0)" by (cases answeredQuiz)
  have sub: "submitQuiz 3000 (q0, st0) = Inr (generateResults 3000 q, q, st)"
    using submit_answeredQuiz unfolding s a by simp
  have len: "length (questions q) = 2" using s by (auto simp: submittedQuiz_eq)
  have key: "storageKey (config q) = ''quizState''"
    using s by (auto simp: submittedQuiz_eq sampleQuiz_def Quiz_def defaultOptions_def)
  have att: "attempts q = 1" using s by (auto simp: submittedQuiz_eq)
  note t = resetAllAnswers_effect [OF r]
  from t have e1: "score q' = 0" and e2: "\<not> isCompleted q'" and e3: "startTime q' = None"
    and e4: "endTime q' = None" by blast+
  from t have "map selectedAnswer (questions q') = replicate (length (questions q)) None" by blast
  with len have e5: "map selectedAnswer (questions q') = [None, None]"
    by (simp add: numeral_2_eq_2)
  from t have "stored st' (storageKey (config q)) = None" by blast
  with key have e6: "stored st' ''quizState'' = None" by simp
  from t sub have e7: "attempts q' = attempts q0 + 1" by blast
  from e1 e2 e3 e4 e5 e6 e7
  have "score q' = 0 \<and> \<not> isCompleted q' \<and> startTime q' = None \<and> endTime q' = None
     \<and> map selectedAnswer (questions q') = [None, None]
     \<and> stored st' ''quizState'' = None \<and> attempts q' = attempts q0 + 1"
    by blast
  then show ?thesis unfolding s a using r att by simp
qed

section \<open>Progress and statistics\<close>

text \<open>
  Claim C4 says that the progress of a quiz without questions is 0. Nothing guards the
  division: \<open>0 / 0\<close> is \<open>NaN\<close>, and so are its product with 100 and the rounding of that.
\<close>

theorem empty_quiz_progress_is_NaN:
  "questions emptyQuiz = [] \<and> getProgressPercentage emptyQuiz = NaN"
  by (simp add: emptyQuiz_def Quiz_def getProgressPercentage_def getAnsweredCount_def num_def)

text \<open>
  Claim C4, as the code has it. For a quiz without questions \<open>getProgressPercentage\<close> returns
  \<open>NaN\<close>. For a quiz with questions (fewer than \<open>2 ^ 32\<close>, the bound of an array) it
  returns \<open>100 * answeredCount / total\<close> rounded to the nearest integer, whenever that value
  is not exactly halfway between two integers, that is, whenever
  \<open>(200 * answeredCount + total) / (2 * total)\<close> is not an integer.
\<close>

theorem getProgressPercentage_value:
  "(questions q = [] \<longrightarrow> getProgressPercentage q = NaN)
   \<and> (questions q \<noteq> [] \<and> length (questions q) < 2 ^ 32
        \<and> (200 * getAnsweredCount q + length (questions q)) mod (2 * length (questions q)) \<noteq> 0
      \<longrightarrow> getProgressPercentage q
            = Fin (of_int (roundHalfUp_percent (getAnsweredCount q) (length (questions q)))))"
proof (intro conjI impI)
  assume "questions q = []"
  then show "getProgressPercentage q = NaN"
    by (simp add: getProgressPercentage_def getAnsweredCount_def num_def)
next
  assume h: "questions q \<noteq> [] \<and> length (questions q) < 2 ^ 32
        \<and> (200 * getAnsweredCount q + length (questions q)) mod (2 * length (questions q)) \<noteq> 0"
  then have "0 < length (questions q)" by simp
  from percent_round [OF this getAnsweredCount_le] h
  show "getProgressPercentage q
            = Fin (of_int (roundHalfUp_percent (getAnsweredCount q) (length (questions q))))"
    by (simp add: getProgressPercentage_def)
qed

theorem getProgressPercentage_value_witness:
  "questions emptyQuiz = [] \<and> getProgressPercentage emptyQuiz = NaN
   \<and> questions (fst capitalOnly) \<noteq> [] \<and> length (questions (fst capitalOnly)) < 2 ^ 32
   \<and> getAnsweredCount (fst capitalOnly) = 1 \<and> length (questions (fst capitalOnly)) = 1
   \<and> (200 * getAnsweredCount (fst capitalOnly) + length (questions (fst capitalOnly)))
        mod (2 * length (questions (fst capitalOnly))) \<noteq> 0
   \<and> getProgressPercentage (fst capitalOnly) = Fin 100
   \<and> length (questions sampleQuiz) = 2 \<and> getAnsweredCount sampleQuiz = 0
   \<and> getProgressPercentage sampleQuiz = Fin 0"
proof -
  have e: "questions emptyQuiz = []" by (simp add: emptyQuiz_def Quiz_def)
  from getProgressPercentage_value [of emptyQuiz] e
  have e': "getProgressPercentage emptyQuiz = NaN" by blast
  have c1: "length (questions (fst capitalOnly)) = 1" by (simp add: capitalOnly_eq)
  have c2: "getAnsweredCount (fst capitalOnly) = 1"
    by (simp add: capitalOnly_eq getAnsweredCount_def)
  have c3: "questions (fst capitalOnly) \<noteq> []" by (simp add: capitalOnly_eq)
  have c4: "length (questions (fst capitalOnly)) < 2 ^ 32" by (simp add: c1)
  have c5: "(200 * getAnsweredCount (fst capitalOnly) + length (questions (fst capitalOnly)))
        mod (2 * length (questions (fst capitalOnly))) \<noteq> 0" by (simp add: c1 c2)
  from getProgressPercentage_value [of "fst capitalOnly"] c3 c4 c5
  have "getProgressPercentage (fst capitalOnly)
      = Fin (of_int (roundHalfUp_percent (getAnsweredCount (fst capitalOnly))
                       (length (questions (fst capitalOnly)))))" by blast
  then have c6: "getProgressPercentage (fst capitalOnly) = Fin 100"
    by (simp add: c1 c2 roundHalfUp_percent_def floor_numeral_quotient)
  have s1: "length (questions sampleQuiz) = 2" by (simp add: sampleQuiz_def Quiz_def)
  have s2: "getAnsweredCount sampleQuiz = 0"
    by (simp add: getAnsweredCount_def sampleQuiz_def Quiz_def capitalQuestion_def compiledQuestion_def)
  have s3: "questions sampleQuiz \<noteq> []" by (simp add: sampleQuiz_def Quiz_def)
  have s4: "length (questions sampleQuiz) < 2 ^ 32" by (simp add: s1)
  have s5: "(200 * getAnsweredCount sampleQuiz + length (questions sampleQuiz))
        mod (2 * length (questions sampleQuiz)) \<noteq> 0" by (simp add: s1 s2)
  from getProgressPercentage_value [of sampleQuiz] s3 s4 s5
  have "getProgressPercentage sampleQuiz
      = Fin (of_int (roundHalfUp_percent (getAnsweredCount sampleQuiz)
                       (length (questions sampleQuiz))))" by blast
  then have s6: "getProgressPercentage sampleQuiz = Fin 0"
    by (simp add: s1 s2 roundHalfUp_percent_def floor_one_quotient)
  show ?thesis using e e' c1 c2 c3 c4 c5 c6 s1 s2 s6 by blast
qed

text \<open>
  Claim C10. When no question is answered, \<open>getStatistics\<close> returns 0 as the average time
  per question: the division by the number of answered questions is behind the test
  \<open>answeredCount > 0\<close>.
\<close>

theorem averageTime_zero_when_unanswered:
  "getAnsweredCount q = 0 \<Longrightarrow> s_averageTimePerQuestion (getStatistics now q) = Fin 0"
  by (simp add: getStatistics_def Let_def)

theorem averageTime_zero_when_unanswered_witness:
  "getAnsweredCount sampleQuiz = 0 \<and> s_averageTimePerQuestion (getStatistics 5000 sampleQuiz) = Fin 0"
proof -
  have h: "getAnsweredCount sampleQuiz = 0"
    by (simp add: getAnsweredCount_def sampleQuiz_def Quiz_def capitalQuestion_def compiledQuestion_def)
  from averageTime_zero_when_unanswered [OF h, of 5000] h show ?thesis by simp
qed

end
